theory Spec2Isabelle
  imports Complex_Main
begin

section \<open>The ETEN 12-10-6 pair style (pair\_lj\_eten.cpp)\<close>

text \<open>
  This theory embeds the class \<^verbatim>\<open>PairLJETEN\<close> of
  \<^verbatim>\<open>src/Software/LAMMPS/pair_lj_eten.cpp\<close>.

  Conventions of the embedding:
  \<^item> a C \<^verbatim>\<open>double\<close> is a \<^typ>\<open>real\<close>: arithmetic is exact, there is no
    rounding, no NaN and no infinity, and \<open>1 / 0 = 0\<close>. Results about formulas are
    therefore results about the formula the code evaluates, not about its round-off;
  \<^item> a C \<^verbatim>\<open>int\<close> is an \<^typ>\<open>int\<close> (no claim depends on overflow of a type
    index or an atom index);
  \<^item> a two-dimensional array \<^verbatim>\<open>double **\<close> is a function of two indices. Reads
    and writes outside the allocated block are undefined in C and are not distinguished
    here: every caller of the source stays within \<open>1 .. ntypes\<close>;
  \<^item> \<^verbatim>\<open>error->all(FLERR, msg)\<close> ends the run. An operation that can reach it
    returns a sum whose left injection carries the message and the state at that point;
  \<^item> everything the file takes from the enclosing engine (atom data, neighbour lists,
    parsing helpers, the mixing rule, the tally routine, MPI) is a parameter.

  The constructor, the destructor and the two \<^verbatim>\<open>write_data\<close> routines (formatted
  text output) are left out.
\<close>

subsection \<open>Tables and state of the pair style\<close>

type_synonym 'a table = "int \<Rightarrow> int \<Rightarrow> 'a"

type_synonym vec3 = "real \<times> real \<times> real"

text \<open>The assignment \<^verbatim>\<open>A[i][j] = v\<close>.\<close>

definition upd2 :: "'a table \<Rightarrow> int \<Rightarrow> int \<Rightarrow> 'a \<Rightarrow> 'a table" where
  "upd2 A i j v = A(i := (A i)(j := v))"

datatype error = Error_all string | Error_one string

text \<open>
  The members of \<^verbatim>\<open>PairLJETEN\<close> (and of its base class \<^verbatim>\<open>Pair\<close>) that the
  file reads or writes. \<open>cut_respa\<close> is the pointer to the integrator's
  \<^verbatim>\<open>double cutoff[4]\<close>; \<open>None\<close> is \<^verbatim>\<open>nullptr\<close>.
\<close>

record pair_state =
  allocated :: bool
  setflag :: "int table"
  cutsq :: "real table"
  cut :: "real table"
  aterm :: "real table"
  bterm :: "real table"
  cterm :: "real table"
  lj1 :: "real table"
  lj2 :: "real table"
  lj3 :: "real table"
  lj4 :: "real table"
  lj5 :: "real table"
  lj6 :: "real table"
  offset :: "real table"
  cut_global :: real
  offset_flag :: int
  mix_flag :: int
  tail_flag :: int
  cut_respa :: "(real \<times> real \<times> real \<times> real) option"
  etail_ij :: real
  ptail_ij :: real

text \<open>
  What the enclosing engine supplies: \<^verbatim>\<open>atom->ntypes\<close>, \<^verbatim>\<open>atom->nlocal\<close>,
  \<^verbatim>\<open>atom->type\<close>, \<^verbatim>\<open>atom->x\<close>, \<^verbatim>\<open>force->special_lj\<close>,
  \<^verbatim>\<open>force->newton_pair\<close>, the macros \<^verbatim>\<open>sbmask\<close> and \<^verbatim>\<open>NEIGHMASK\<close>
  (as the function \<open>j &= NEIGHMASK\<close>), \<^verbatim>\<open>Pair::mix_distance\<close>,
  \<^verbatim>\<open>utils::numeric\<close>, \<^verbatim>\<open>utils::bounds\<close>, the sum over ranks of
  \<^verbatim>\<open>MPI_Allreduce\<close> on a pair of doubles, and the flags \<open>evflag\<close> and
  \<open>vflag_fdotr\<close> that \<^verbatim>\<open>ev_init(eflag, vflag)\<close> sets, and of the integrator
  \<^verbatim>\<open>update->whichflag\<close>, \<^verbatim>\<open>update->integrate_style\<close> and the members
  \<open>level_inner\<close>, \<open>level_middle\<close> and \<open>cutoff\<close> of \<^verbatim>\<open>Respa\<close>.
\<close>

record engine =
  ntypes :: int
  nlocal :: int
  atom_type :: "int \<Rightarrow> int"
  atom_x :: "int \<Rightarrow> vec3"
  special_lj :: "int \<Rightarrow> real"
  newton_pair :: int
  sbmask :: "int \<Rightarrow> int"
  neighmask :: "int \<Rightarrow> int"
  mix_distance :: "real \<Rightarrow> real \<Rightarrow> real"
  numeric :: "string \<Rightarrow> error + real"
  bounds :: "string \<Rightarrow> int \<Rightarrow> int \<Rightarrow> error + int \<times> int"
  allreduce_sum :: "real \<times> real \<Rightarrow> real \<times> real"
  ev_init :: "int \<Rightarrow> int \<Rightarrow> int \<times> int"
  whichflag :: int
  integrate_style :: string
  level_inner :: int
  level_middle :: int
  respa_cutoff :: "real \<times> real \<times> real \<times> real"

subsection \<open>allocate\<close>

text \<open>
  \<^verbatim>\<open>memory->create\<close> returns a block whose contents are indeterminate. The
  parameter \<open>fresh\<close> holds the contents of the new blocks; only \<open>setflag\<close> is
  initialised, and only for \<open>1 \<le> i \<le> j \<le> ntypes\<close>.
\<close>

definition allocate :: "engine \<Rightarrow> pair_state \<Rightarrow> pair_state \<Rightarrow> pair_state" where
  "allocate E fresh s =
     (let n = ntypes E + 1 in
      s\<lparr>allocated := True,
        setflag := fold (\<lambda>i sf. fold (\<lambda>j sf. upd2 sf i j 0) [i..n - 1] sf) [1..n - 1]
                     (setflag fresh),
        cutsq := cutsq fresh,
        cut := cut fresh,
        aterm := aterm fresh,
        bterm := bterm fresh,
        cterm := cterm fresh,
        lj1 := lj1 fresh,
        lj2 := lj2 fresh,
        lj3 := lj3 fresh,
        lj4 := lj4 fresh,
        lj5 := lj5 fresh,
        lj6 := lj6 fresh,
        offset := offset fresh\<rparr>)"

subsection \<open>settings\<close>

definition settings_reset :: "engine \<Rightarrow> pair_state \<Rightarrow> pair_state" where
  "settings_reset E s =
     fold (\<lambda>i s. fold (\<lambda>j s. if setflag s i j \<noteq> 0
                              then s\<lparr>cut := upd2 (cut s) i j (cut_global s)\<rparr> else s)
                    [i..ntypes E] s)
          [1..ntypes E] s"

definition settings :: "engine \<Rightarrow> string list \<Rightarrow> pair_state \<Rightarrow> error \<times> pair_state + pair_state" where
  "settings E arg s =
     (if int (length arg) \<noteq> 1 then Inl (Error_all ''Illegal pair_style command'', s)
      else case numeric E (arg ! 0) of
             Inl e \<Rightarrow> Inl (e, s)
           | Inr v \<Rightarrow>
               (let s1 = s\<lparr>cut_global := v\<rparr>
                in Inr (if allocated s1 then settings_reset E s1 else s1)))"

subsection \<open>coeff\<close>

text \<open>The body of the double loop of \<^verbatim>\<open>coeff\<close> (lines 467 to 472) and the loop;
  the state carries \<open>count\<close>.\<close>

definition coeff_assign ::
  "real \<Rightarrow> real \<Rightarrow> real \<Rightarrow> real \<Rightarrow> int \<Rightarrow> int \<Rightarrow> int \<times> pair_state \<Rightarrow> int \<times> pair_state" where
  "coeff_assign aterm_one bterm_one cterm_one cut_one i j = (\<lambda>(count, s).
     (count + 1,
      s\<lparr>aterm := upd2 (aterm s) i j aterm_one,
        bterm := upd2 (bterm s) i j bterm_one,
        cterm := upd2 (cterm s) i j cterm_one,
        cut := upd2 (cut s) i j cut_one,
        setflag := upd2 (setflag s) i j 1\<rparr>))"

definition coeff_loop ::
  "int \<Rightarrow> int \<Rightarrow> int \<Rightarrow> int \<Rightarrow> real \<Rightarrow> real \<Rightarrow> real \<Rightarrow> real \<Rightarrow> int \<times> pair_state \<Rightarrow> int \<times> pair_state" where
  "coeff_loop ilo ihi jlo jhi aterm_one bterm_one cterm_one cut_one =
     fold (\<lambda>i. fold (coeff_assign aterm_one bterm_one cterm_one cut_one i) [max jlo i..jhi])
          [ilo..ihi]"

definition coeff ::
  "engine \<Rightarrow> pair_state \<Rightarrow> string list \<Rightarrow> pair_state \<Rightarrow> error \<times> pair_state + pair_state" where
  "coeff E fresh arg s =
     (let narg = int (length arg) in
      if narg < 5 \<or> narg > 6 then Inl (Error_all ''Incorrect args for pair coefficients'', s)
      else
        (let s1 = (if \<not> allocated s then allocate E fresh s else s) in
         (case bounds E (arg ! 0) 1 (ntypes E) of
            Inl e \<Rightarrow> Inl (e, s1)
          | Inr (ilo, ihi) \<Rightarrow>
         (case bounds E (arg ! 1) 1 (ntypes E) of
            Inl e \<Rightarrow> Inl (e, s1)
          | Inr (jlo, jhi) \<Rightarrow>
         (case numeric E (arg ! 2) of
            Inl e \<Rightarrow> Inl (e, s1)
          | Inr aterm_one \<Rightarrow>
         (case numeric E (arg ! 3) of
            Inl e \<Rightarrow> Inl (e, s1)
          | Inr bterm_one \<Rightarrow>
         (case numeric E (arg ! 4) of
            Inl e \<Rightarrow> Inl (e, s1)
          | Inr cterm_one \<Rightarrow>
         (case (if narg = 6 then numeric E (arg ! 5) else Inr (cut_global s1)) of
            Inl e \<Rightarrow> Inl (e, s1)
          | Inr cut_one \<Rightarrow>
              (case coeff_loop ilo ihi jlo jhi aterm_one bterm_one cterm_one cut_one (0, s1) of
                 (count, s2) \<Rightarrow>
                   if count = 0
                   then Inl (Error_all ''Incorrect args for pair coefficients'', s2)
                   else Inr s2)))))))))"

subsection \<open>init\_one\<close>

text \<open>The loop counting the local atoms of types \<open>i\<close> and \<open>j\<close>.\<close>

definition count_types :: "engine \<Rightarrow> int \<Rightarrow> int \<Rightarrow> real \<times> real" where
  "count_types E i j =
     fold (\<lambda>k (c0, c1).
             (if atom_type E k = i then c0 + 1 else c0,
              if atom_type E k = j then c1 + 1 else c1))
          [0..nlocal E - 1] (0, 0)"

text \<open>The block guarded by \<open>tail_flag\<close> (lines 555 to 575).\<close>

definition tail_correction :: "engine \<Rightarrow> int \<Rightarrow> int \<Rightarrow> pair_state \<Rightarrow> pair_state" where
  "tail_correction E i j s =
     (if tail_flag s \<noteq> 0
      then (let (all0, all1) = allreduce_sum E (count_types E i j);
                sig2 = aterm s i j * aterm s i j;
                sig6 = sig2 * sig2 * sig2;
                rc3 = cut s i j * cut s i j * cut s i j;
                rc6 = rc3 * rc3;
                rc9 = rc3 * rc6;
                prefactor = 8 * pi * all0 * all1 * bterm s i j * sig6 / (9 * rc9)
            in s\<lparr>etail_ij := prefactor * (sig6 - 3 * rc6),
                 ptail_ij := 2 * prefactor * (2 * sig6 - 3 * rc6)\<rparr>)
      else s)"

text \<open>
  \<^verbatim>\<open>init_one\<close> in its three blocks of assignments. Inside a block every statement
  writes another array and reads only values that no earlier statement of the block has
  changed (the self-assignments of lines 519 to 521 store the value already there), so
  each block is one simultaneous update.
\<close>

text \<open>Lines 512 to 517: an unset pair gets zero coefficients and a mixed cutoff.\<close>

definition init_one_mix :: "engine \<Rightarrow> int \<Rightarrow> int \<Rightarrow> pair_state \<Rightarrow> pair_state" where
  "init_one_mix E i j s =
     (if setflag s i j = 0
      then s\<lparr>aterm := upd2 (aterm s) i j 0,
             bterm := upd2 (bterm s) i j 0,
             cterm := upd2 (cterm s) i j 0,
             cut := upd2 (cut s) i j (mix_distance E (cut s i i) (cut s j j))\<rparr>
      else s)"

text \<open>Lines 519 to 537: the derived constants of \<open>(i, j)\<close>; the offset is always zero.\<close>

definition init_one_derive :: "int \<Rightarrow> int \<Rightarrow> pair_state \<Rightarrow> pair_state" where
  "init_one_derive i j s =
     s\<lparr>aterm := upd2 (aterm s) i j (aterm s i j),
       bterm := upd2 (bterm s) i j (bterm s i j),
       cterm := upd2 (cterm s) i j (cterm s i j),
       lj1 := upd2 (lj1 s) i j (12 * aterm s i j),
       lj2 := upd2 (lj2 s) i j (10 * bterm s i j),
       lj3 := upd2 (lj3 s) i j (6 * cterm s i j),
       lj4 := upd2 (lj4 s) i j (aterm s i j),
       lj5 := upd2 (lj5 s) i j (bterm s i j),
       lj6 := upd2 (lj6 s) i j (cterm s i j),
       offset := upd2 (offset s) i j 0\<rparr>"

text \<open>Lines 539 to 545: the copies into \<open>(j, i)\<close>.\<close>

definition init_one_mirror :: "int \<Rightarrow> int \<Rightarrow> pair_state \<Rightarrow> pair_state" where
  "init_one_mirror i j s =
     s\<lparr>lj1 := upd2 (lj1 s) j i (lj1 s i j),
       lj2 := upd2 (lj2 s) j i (lj2 s i j),
       lj3 := upd2 (lj3 s) j i (lj3 s i j),
       lj4 := upd2 (lj4 s) j i (lj4 s i j),
       lj5 := upd2 (lj5 s) j i (lj5 s i j),
       lj6 := upd2 (lj6 s) j i (lj6 s i j),
       offset := upd2 (offset s) j i (offset s i j)\<rparr>"

definition init_one ::
  "engine \<Rightarrow> int \<Rightarrow> int \<Rightarrow> pair_state \<Rightarrow> error \<times> pair_state + real \<times> pair_state" where
  "init_one E i j s =
     (let s = init_one_mix E i j s;
          s = init_one_derive i j s;
          s = init_one_mirror i j s
      in if (case cut_respa s of None \<Rightarrow> False
             | Some (c0, c1, c2, c3) \<Rightarrow> cut s i j < c3)
         then Inl (Error_all ''Pair cutoff < Respa interior cutoff'', s)
         else (let s = tail_correction E i j s in Inr (cut s i j, s)))"

subsection \<open>init\_style\<close>

datatype list_style = REQ_DEFAULT | REQ_RESPA_INOUT | REQ_RESPA_ALL

text \<open>
  \<^verbatim>\<open>utils::strmatch(s, "^respa")\<close> holds when \<open>s\<close> starts with \<open>respa\<close>. The
  result is the request passed to \<^verbatim>\<open>neighbor->add_request\<close> and the new state.
\<close>

definition init_style :: "engine \<Rightarrow> pair_state \<Rightarrow> list_style \<times> pair_state" where
  "init_style E s =
     (let list_style = REQ_DEFAULT;
          list_style =
            (if whichflag E = 1 \<and> take 5 (integrate_style E) = ''respa''
             then (let list_style = (if level_inner E \<ge> 0 then REQ_RESPA_INOUT else list_style)
                   in if level_middle E \<ge> 0 then REQ_RESPA_ALL else list_style)
             else list_style)
      in (list_style,
          if take 5 (integrate_style E) = ''respa'' \<and> level_inner E \<ge> 0
          then s\<lparr>cut_respa := Some (respa_cutoff E)\<rparr>
          else s\<lparr>cut_respa := None\<rparr>))"

subsection \<open>Forces, energies and tallies\<close>

text \<open>
  The force array \<^verbatim>\<open>atom->f\<close> and the calls made to the engine's accumulators:
  \<^verbatim>\<open>ev_tally(i, j, nlocal, newton_pair, evdwl, ecoul, fpair, delx, dely, delz)\<close> and
  \<^verbatim>\<open>virial_fdotr_compute()\<close>, recorded in call order.
\<close>

datatype tally =
    Ev_tally int int int int real real real real real real
  | Virial_fdotr_compute

record sim =
  atom_f :: "int \<Rightarrow> vec3"
  tallies :: "tally list"

text \<open>
  The function-scope locals of the compute routines that live across loop iterations.
  Except for \<open>evdwl\<close> they start indeterminate.
\<close>

record locals =
  evdwl :: real
  fpair :: real
  r2inv :: real
  r6inv :: real
  forcelj :: real
  rsw :: real

text \<open>
  The block, identical in the four compute routines, that adds \<open>del * fpair\<close> to
  \<open>f[i]\<close> and, under \<^verbatim>\<open>newton_pair || j < nlocal\<close>, subtracts it from \<open>f[j]\<close>.
\<close>

definition apply_fpair :: "engine \<Rightarrow> int \<Rightarrow> int \<Rightarrow> real \<Rightarrow> real \<Rightarrow> real \<Rightarrow> real \<Rightarrow> sim \<Rightarrow> sim" where
  "apply_fpair E i j delx dely delz fp \<sigma> =
     (let f = atom_f \<sigma>;
          f = f(i := (case f i of (fx, fy, fz) \<Rightarrow>
                        (fx + delx * fp, fy + dely * fp, fz + delz * fp)));
          f = (if newton_pair E \<noteq> 0 \<or> j < nlocal E
               then f(j := (case f j of (fx, fy, fz) \<Rightarrow>
                              (fx - delx * fp, fy - dely * fp, fz - delz * fp)))
               else f)
      in \<sigma>\<lparr>atom_f := f\<rparr>)"

subsection \<open>compute\<close>

text \<open>
  The body of the inner loop of \<^verbatim>\<open>compute\<close> from the test on \<open>rsq\<close> on
  (lines 116 to 137), for one neighbour pair whose separation, squared distance, types and
  special-bond factor the loop has worked out. The locals assigned in the body are
  written back at its end.
\<close>

definition compute_pair ::
  "engine \<Rightarrow> pair_state \<Rightarrow> int \<Rightarrow> int \<Rightarrow> int \<Rightarrow> int \<Rightarrow> int \<Rightarrow> int \<Rightarrow> real \<Rightarrow>
   real \<Rightarrow> real \<Rightarrow> real \<Rightarrow> real \<Rightarrow> locals \<times> sim \<Rightarrow> locals \<times> sim" where
  "compute_pair E s eflag evflag i j itype jtype factor_lj delx dely delz rsq = (\<lambda>(L, \<sigma>).
     if rsq < cutsq s itype jtype then
       (let r2inv = 1 / rsq;
            r6inv = r2inv * r2inv * r2inv;
            forcelj = r6inv * (lj1 s itype jtype * r6inv - lj2 s itype jtype * r2inv * r2inv
                               + lj3 s itype jtype);
            fpair = factor_lj * forcelj * r2inv;
            \<sigma> = apply_fpair E i j delx dely delz fpair \<sigma>;
            evdwl = (if eflag \<noteq> 0
                     then (r6inv * (lj4 s itype jtype * r6inv - lj5 s itype jtype * r2inv * r2inv
                                    + lj6 s itype jtype) - offset s itype jtype) * factor_lj
                     else evdwl L);
            \<sigma> = (if evflag \<noteq> 0
                 then \<sigma>\<lparr>tallies := tallies \<sigma> @
                          [Ev_tally i j (nlocal E) (newton_pair E) evdwl 0 fpair delx dely delz]\<rparr>
                 else \<sigma>)
        in (L\<lparr>evdwl := evdwl, fpair := fpair, r2inv := r2inv, r6inv := r6inv,
              forcelj := forcelj\<rparr>, \<sigma>))
     else (L, \<sigma>))"

text \<open>
  A neighbour list: \<open>ilist\<close> has \<open>inum\<close> entries and \<open>firstneigh i\<close> has
  \<open>numneigh[i]\<close> entries, each an atom index with the special-bond bits on top.
\<close>

record neigh_list =
  ilist :: "int list"
  firstneigh :: "int \<Rightarrow> int list"
  ilist_inner :: "int list"
  firstneigh_inner :: "int \<Rightarrow> int list"
  ilist_middle :: "int list"
  firstneigh_middle :: "int \<Rightarrow> int list"

text \<open>
  The two loops over atoms and their neighbours, shared by the four routines: \<open>body\<close>
  receives \<open>i j itype jtype factor_lj delx dely delz rsq\<close>.
\<close>

definition neighbor_loop ::
  "engine \<Rightarrow> int list \<Rightarrow> (int \<Rightarrow> int list) \<Rightarrow>
   (int \<Rightarrow> int \<Rightarrow> int \<Rightarrow> int \<Rightarrow> real \<Rightarrow> real \<Rightarrow> real \<Rightarrow> real \<Rightarrow> real \<Rightarrow> locals \<times> sim \<Rightarrow> locals \<times> sim) \<Rightarrow>
   locals \<times> sim \<Rightarrow> locals \<times> sim" where
  "neighbor_loop E il fn body =
     fold (\<lambda>i. case atom_x E i of (xtmp, ytmp, ztmp) \<Rightarrow>
             (let itype = atom_type E i;
                  jlist = fn i
              in fold (\<lambda>j0. let factor_lj = special_lj E (sbmask E j0);
                                j = neighmask E j0
                            in case atom_x E j of (xj, yj, zj) \<Rightarrow>
                                 (let delx = xtmp - xj;
                                      dely = ytmp - yj;
                                      delz = ztmp - zj;
                                      rsq = delx * delx + dely * dely + delz * delz;
                                      jtype = atom_type E j
                                  in body i j itype jtype factor_lj delx dely delz rsq))
                      jlist))
          il"

definition compute ::
  "engine \<Rightarrow> pair_state \<Rightarrow> neigh_list \<Rightarrow> int \<Rightarrow> int \<Rightarrow> locals \<Rightarrow> sim \<Rightarrow> sim" where
  "compute E s nl eflag vflag L0 \<sigma> =
     (let L = L0\<lparr>evdwl := 0\<rparr>;
          (evflag, vflag_fdotr) = ev_init E eflag vflag;
          (L, \<sigma>) = neighbor_loop E (ilist nl) (firstneigh nl)
                      (compute_pair E s eflag evflag) (L, \<sigma>)
      in if vflag_fdotr \<noteq> 0 then \<sigma>\<lparr>tallies := tallies \<sigma> @ [Virial_fdotr_compute]\<rparr> else \<sigma>)"

subsection \<open>compute\_inner, compute\_middle, compute\_outer\<close>

text \<open>
  Each pair function below takes the four cutoffs of the integrator and starts with the
  loop-invariant locals that the routine computes before its loops.
\<close>

definition inner_pair ::
  "engine \<Rightarrow> pair_state \<Rightarrow> real \<times> real \<times> real \<times> real \<Rightarrow> int \<Rightarrow> int \<Rightarrow> int \<Rightarrow> int \<Rightarrow> real \<Rightarrow>
   real \<Rightarrow> real \<Rightarrow> real \<Rightarrow> real \<Rightarrow> locals \<times> sim \<Rightarrow> locals \<times> sim" where
  "inner_pair E s cr i j itype jtype factor_lj delx dely delz rsq = (\<lambda>(L, \<sigma>).
     case cr of (cr0, cr1, cr2, cr3) \<Rightarrow>
     (let cut_out_on = cr0;
          cut_out_off = cr1;
          cut_out_diff = cut_out_off - cut_out_on;
          cut_out_on_sq = cut_out_on * cut_out_on;
          cut_out_off_sq = cut_out_off * cut_out_off
      in if rsq < cut_out_off_sq then
           (let r2inv = 1 / rsq;
                r6inv = r2inv * r2inv * r2inv;
                forcelj = r6inv * (lj1 s itype jtype * r6inv - lj2 s itype jtype * r2inv * r2inv
                                   + lj3 s itype jtype);
                fpair = factor_lj * forcelj * r2inv;
                (rsw, fpair) =
                  (if rsq > cut_out_on_sq
                   then (let rsw = (sqrt rsq - cut_out_on) / cut_out_diff
                         in (rsw, fpair * (1 - rsw * rsw * (3 - 2 * rsw))))
                   else (rsw L, fpair))
            in (L\<lparr>fpair := fpair, r2inv := r2inv, r6inv := r6inv, forcelj := forcelj,
                  rsw := rsw\<rparr>,
                apply_fpair E i j delx dely delz fpair \<sigma>))
         else (L, \<sigma>)))"

definition compute_inner ::
  "engine \<Rightarrow> pair_state \<Rightarrow> neigh_list \<Rightarrow> locals \<Rightarrow> sim \<Rightarrow> sim option" where
  "compute_inner E s nl L0 \<sigma> =
     (case cut_respa s of
        None \<Rightarrow> None
      | Some cr \<Rightarrow>
          Some (snd (neighbor_loop E (ilist_inner nl) (firstneigh_inner nl)
                       (inner_pair E s cr) (L0, \<sigma>))))"

definition middle_pair ::
  "engine \<Rightarrow> pair_state \<Rightarrow> real \<times> real \<times> real \<times> real \<Rightarrow> int \<Rightarrow> int \<Rightarrow> int \<Rightarrow> int \<Rightarrow> real \<Rightarrow>
   real \<Rightarrow> real \<Rightarrow> real \<Rightarrow> real \<Rightarrow> locals \<times> sim \<Rightarrow> locals \<times> sim" where
  "middle_pair E s cr i j itype jtype factor_lj delx dely delz rsq = (\<lambda>(L, \<sigma>).
     case cr of (cr0, cr1, cr2, cr3) \<Rightarrow>
     (let cut_in_off = cr0;
          cut_in_on = cr1;
          cut_out_on = cr2;
          cut_out_off = cr3;
          cut_in_diff = cut_in_on - cut_in_off;
          cut_out_diff = cut_out_off - cut_out_on;
          cut_in_off_sq = cut_in_off * cut_in_off;
          cut_in_on_sq = cut_in_on * cut_in_on;
          cut_out_on_sq = cut_out_on * cut_out_on;
          cut_out_off_sq = cut_out_off * cut_out_off
      in if rsq < cut_out_off_sq \<and> rsq > cut_in_off_sq then
           (let r2inv = 1 / rsq;
                r6inv = r2inv * r2inv * r2inv;
                forcelj = r6inv * (lj1 s itype jtype * r6inv - lj2 s itype jtype * r2inv * r2inv
                                   + lj3 s itype jtype);
                fpair = factor_lj * forcelj * r2inv;
                (rsw, fpair) =
                  (if rsq < cut_in_on_sq
                   then (let rsw = (sqrt rsq - cut_in_off) / cut_in_diff
                         in (rsw, fpair * (rsw * rsw * (3 - 2 * rsw))))
                   else (rsw L, fpair));
                (rsw, fpair) =
                  (if rsq > cut_out_on_sq
                   then (let rsw = (sqrt rsq - cut_out_on) / cut_out_diff
                         in (rsw, fpair * (1 + rsw * rsw * (2 * rsw - 3))))
                   else (rsw, fpair))
            in (L\<lparr>fpair := fpair, r2inv := r2inv, r6inv := r6inv, forcelj := forcelj,
                  rsw := rsw\<rparr>,
                apply_fpair E i j delx dely delz fpair \<sigma>))
         else (L, \<sigma>)))"

definition compute_middle ::
  "engine \<Rightarrow> pair_state \<Rightarrow> neigh_list \<Rightarrow> locals \<Rightarrow> sim \<Rightarrow> sim option" where
  "compute_middle E s nl L0 \<sigma> =
     (case cut_respa s of
        None \<Rightarrow> None
      | Some cr \<Rightarrow>
          Some (snd (neighbor_loop E (ilist_middle nl) (firstneigh_middle nl)
                       (middle_pair E s cr) (L0, \<sigma>))))"

text \<open>
  In \<^verbatim>\<open>compute_outer\<close> a local can reach a statement with the value an earlier
  pair left in it, so each stage of the body reads the locals it does not assign from
  \<open>L\<close>. The stages are the force branch (lines 353 to 371), the energy (373 to 378), the
  virial branch (380 to 388) and the tally (390).
\<close>

definition outer_force ::
  "engine \<Rightarrow> pair_state \<Rightarrow> real \<times> real \<times> real \<times> real \<Rightarrow> int \<Rightarrow> int \<Rightarrow> int \<Rightarrow> int \<Rightarrow> real \<Rightarrow>
   real \<Rightarrow> real \<Rightarrow> real \<Rightarrow> real \<Rightarrow> locals \<times> sim \<Rightarrow> locals \<times> sim" where
  "outer_force E s cr i j itype jtype factor_lj delx dely delz rsq = (\<lambda>(L, \<sigma>).
     case cr of (cr0, cr1, cr2, cr3) \<Rightarrow>
     (let cut_in_off = cr2;
          cut_in_on = cr3;
          cut_in_diff = cut_in_on - cut_in_off;
          cut_in_off_sq = cut_in_off * cut_in_off;
          cut_in_on_sq = cut_in_on * cut_in_on
      in if rsq > cut_in_off_sq then
           (let r2inv = 1 / rsq;
                r6inv = r2inv * r2inv * r2inv;
                forcelj = r6inv * (lj1 s itype jtype * r6inv - lj2 s itype jtype * r2inv * r2inv
                                   + lj3 s itype jtype);
                fpair = factor_lj * forcelj * r2inv;
                (rsw, fpair) =
                  (if rsq < cut_in_on_sq
                   then (let rsw = (sqrt rsq - cut_in_off) / cut_in_diff
                         in (rsw, fpair * (rsw * rsw * (3 - 2 * rsw))))
                   else (rsw L, fpair))
            in (L\<lparr>fpair := fpair, r2inv := r2inv, r6inv := r6inv, forcelj := forcelj,
                  rsw := rsw\<rparr>,
                apply_fpair E i j delx dely delz fpair \<sigma>))
         else (L, \<sigma>)))"

definition outer_energy ::
  "pair_state \<Rightarrow> int \<Rightarrow> int \<Rightarrow> int \<Rightarrow> real \<Rightarrow> real \<Rightarrow> locals \<Rightarrow> locals" where
  "outer_energy s eflag itype jtype factor_lj rsq L =
     (if eflag \<noteq> 0
      then (let r2inv = 1 / rsq;
                r6inv = r2inv * r2inv * r2inv;
                evdwl = (r6inv * (lj4 s itype jtype * r6inv - lj5 s itype jtype * r2inv * r2inv
                                  + lj6 s itype jtype) - offset s itype jtype) * factor_lj
            in L\<lparr>evdwl := evdwl, r2inv := r2inv, r6inv := r6inv\<rparr>)
      else L)"

definition outer_virial ::
  "pair_state \<Rightarrow> real \<times> real \<times> real \<times> real \<Rightarrow> int \<Rightarrow> int \<Rightarrow> int \<Rightarrow> real \<Rightarrow> real \<Rightarrow>
   locals \<Rightarrow> locals" where
  "outer_virial s cr vflag itype jtype factor_lj rsq L =
     (case cr of (cr0, cr1, cr2, cr3) \<Rightarrow>
      (let cut_in_off = cr2;
           cut_in_on = cr3;
           cut_in_off_sq = cut_in_off * cut_in_off;
           cut_in_on_sq = cut_in_on * cut_in_on
       in if vflag \<noteq> 0
          then (if rsq \<le> cut_in_off_sq
                then (let r2inv = 1 / rsq;
                          r6inv = r2inv * r2inv * r2inv;
                          forcelj = r6inv * (lj1 s itype jtype * r6inv
                                             - lj2 s itype jtype * r2inv * r2inv
                                             + lj3 s itype jtype);
                          fpair = factor_lj * forcelj * r2inv
                      in L\<lparr>fpair := fpair, r2inv := r2inv, r6inv := r6inv,
                           forcelj := forcelj\<rparr>)
                else if rsq < cut_in_on_sq
                then L\<lparr>fpair := factor_lj * forcelj L * r2inv L\<rparr>
                else L)
          else L))"

definition outer_pair ::
  "engine \<Rightarrow> pair_state \<Rightarrow> real \<times> real \<times> real \<times> real \<Rightarrow> int \<Rightarrow> int \<Rightarrow> int \<Rightarrow>
   int \<Rightarrow> int \<Rightarrow> int \<Rightarrow> int \<Rightarrow> real \<Rightarrow>
   real \<Rightarrow> real \<Rightarrow> real \<Rightarrow> real \<Rightarrow> locals \<times> sim \<Rightarrow> locals \<times> sim" where
  "outer_pair E s cr eflag vflag evflag i j itype jtype factor_lj delx dely delz rsq = (\<lambda>(L, \<sigma>).
     if rsq < cutsq s itype jtype then
       (let (L, \<sigma>) = outer_force E s cr i j itype jtype factor_lj delx dely delz rsq (L, \<sigma>);
            L = outer_energy s eflag itype jtype factor_lj rsq L;
            L = outer_virial s cr vflag itype jtype factor_lj rsq L;
            \<sigma> = (if evflag \<noteq> 0
                 then \<sigma>\<lparr>tallies := tallies \<sigma> @
                          [Ev_tally i j (nlocal E) (newton_pair E) (evdwl L) 0 (fpair L)
                             delx dely delz]\<rparr>
                 else \<sigma>)
        in (L, \<sigma>))
     else (L, \<sigma>))"

definition compute_outer ::
  "engine \<Rightarrow> pair_state \<Rightarrow> neigh_list \<Rightarrow> int \<Rightarrow> int \<Rightarrow> locals \<Rightarrow> sim \<Rightarrow> sim option" where
  "compute_outer E s nl eflag vflag L0 \<sigma> =
     (let L = L0\<lparr>evdwl := 0\<rparr>;
          (evflag, vflag_fdotr) = ev_init E eflag vflag
      in case cut_respa s of
           None \<Rightarrow> None
         | Some cr \<Rightarrow>
             Some (snd (neighbor_loop E (ilist nl) (firstneigh nl)
                          (outer_pair E s cr eflag vflag evflag) (L, \<sigma>))))"

subsection \<open>single and born\_matrix\<close>

text \<open>\<^verbatim>\<open>single\<close> returns the energy and stores the force in \<open>fforce\<close>: the pair
  (returned value, \<open>fforce\<close>).\<close>

definition single :: "pair_state \<Rightarrow> int \<Rightarrow> int \<Rightarrow> real \<Rightarrow> real \<Rightarrow> real \<times> real" where
  "single s itype jtype rsq factor_lj =
     (let r2inv = 1 / rsq;
          r6inv = r2inv * r2inv * r2inv;
          forcelj = r6inv * (lj1 s itype jtype * r6inv - lj2 s itype jtype * r2inv * r2inv
                             + lj3 s itype jtype);
          fforce = factor_lj * forcelj * r2inv;
          philj = r6inv * (lj4 s itype jtype * r6inv - lj5 s itype jtype * r2inv * r2inv
                           + lj6 s itype jtype) - offset s itype jtype
      in (factor_lj * philj, fforce))"

text \<open>\<^verbatim>\<open>born_matrix\<close> stores \<open>dupair\<close> and \<open>du2pair\<close>: the pair of the two.\<close>

definition born_matrix :: "pair_state \<Rightarrow> int \<Rightarrow> int \<Rightarrow> real \<Rightarrow> real \<Rightarrow> real \<times> real" where
  "born_matrix s itype jtype rsq factor_lj =
     (let r2inv = 1 / rsq;
          rinv = sqrt r2inv;
          r6inv = r2inv * r2inv * r2inv;
          du = r6inv * rinv * (lj2 s itype jtype - lj1 s itype jtype * r6inv);
          du2 = r6inv * r2inv * (13 * lj1 s itype jtype * r6inv - 7 * lj2 s itype jtype);
          dupair = factor_lj * du;
          du2pair = factor_lj * du2
      in (dupair, du2pair))"

text \<open>\<^verbatim>\<open>extract\<close> (a command name here, hence the suffix) returns a table or
  \<^verbatim>\<open>nullptr\<close> and sets \<open>dim\<close> to 2.\<close>

definition extract_table :: "pair_state \<Rightarrow> string \<Rightarrow> real table option \<times> int" where
  "extract_table s str =
     (if str = ''aterm'' then (Some (aterm s), 2)
      else if str = ''bterm'' then (Some (bterm s), 2)
      else if str = ''cterm'' then (Some (cterm s), 2)
      else (None, 2))"

subsection \<open>Restart files\<close>

text \<open>
  A restart file is a sequence of fixed-width items, an \<^verbatim>\<open>int\<close> or a
  \<^verbatim>\<open>double\<close> each; the bytes inside an item are not modelled. The run is seen from
  rank 0, whose values \<^verbatim>\<open>MPI_Bcast\<close> copies to the other ranks.
\<close>

datatype datum = Int_datum int | Double_datum real

definition write_restart_settings :: "pair_state \<Rightarrow> datum list \<Rightarrow> datum list" where
  "write_restart_settings s fp =
     fp @ [Double_datum (cut_global s)] @ [Int_datum (offset_flag s)]
        @ [Int_datum (mix_flag s)] @ [Int_datum (tail_flag s)]"

definition write_restart :: "engine \<Rightarrow> pair_state \<Rightarrow> datum list \<Rightarrow> datum list" where
  "write_restart E s fp =
     (let fp = write_restart_settings s fp
      in fold (\<lambda>i. fold (\<lambda>j fp.
                      (let fp = fp @ [Int_datum (setflag s i j)]
                       in if setflag s i j \<noteq> 0
                          then fp @ [Double_datum (aterm s i j)] @ [Double_datum (bterm s i j)]
                                  @ [Double_datum (cterm s i j)] @ [Double_datum (cut s i j)]
                          else fp))
                    [i..ntypes E])
              [1..ntypes E] fp)"

text \<open>
  Modelled from the spec: \<^verbatim>\<open>utils::sfread\<close> is not part of this file. Decoding
  ``must reject truncated streams as a fatal read error'': a read returns the next item
  and the rest of the stream, and fails when the stream has ended; an item of the other
  width is taken as unreadable too.
\<close>

definition sfread_int :: "datum list \<Rightarrow> error + int \<times> datum list" where
  "sfread_int fp =
     (case fp of
        Int_datum v # rest \<Rightarrow> Inr (v, rest)
      | _ \<Rightarrow> Inl (Error_one ''Unexpected end of file while reading restart file''))"

definition sfread_double :: "datum list \<Rightarrow> error + real \<times> datum list" where
  "sfread_double fp =
     (case fp of
        Double_datum v # rest \<Rightarrow> Inr (v, rest)
      | _ \<Rightarrow> Inl (Error_one ''Unexpected end of file while reading restart file''))"

definition read_restart_settings ::
  "pair_state \<times> datum list \<Rightarrow> error \<times> pair_state + pair_state \<times> datum list" where
  "read_restart_settings = (\<lambda>(s, fp).
     case sfread_double fp of Inl e \<Rightarrow> Inl (e, s) | Inr (v, fp) \<Rightarrow>
     (let s = s\<lparr>cut_global := v\<rparr> in
      case sfread_int fp of Inl e \<Rightarrow> Inl (e, s) | Inr (v, fp) \<Rightarrow>
      (let s = s\<lparr>offset_flag := v\<rparr> in
       case sfread_int fp of Inl e \<Rightarrow> Inl (e, s) | Inr (v, fp) \<Rightarrow>
       (let s = s\<lparr>mix_flag := v\<rparr> in
        case sfread_int fp of Inl e \<Rightarrow> Inl (e, s) | Inr (v, fp) \<Rightarrow>
          Inr (s\<lparr>tail_flag := v\<rparr>, fp)))))"

text \<open>A loop whose body can end the run.\<close>

fun foldE :: "('a \<Rightarrow> 's \<Rightarrow> 'e + 's) \<Rightarrow> 'a list \<Rightarrow> 's \<Rightarrow> 'e + 's" where
  "foldE body [] s = Inr s"
| "foldE body (x # xs) s = (case body x s of Inl e \<Rightarrow> Inl e | Inr s' \<Rightarrow> foldE body xs s')"

definition read_entry ::
  "int \<Rightarrow> int \<Rightarrow> pair_state \<times> datum list \<Rightarrow> error \<times> pair_state + pair_state \<times> datum list" where
  "read_entry i j = (\<lambda>(s, fp).
     case sfread_int fp of Inl e \<Rightarrow> Inl (e, s) | Inr (v, fp) \<Rightarrow>
     (let s = s\<lparr>setflag := upd2 (setflag s) i j v\<rparr> in
      if setflag s i j \<noteq> 0 then
        (case sfread_double fp of Inl e \<Rightarrow> Inl (e, s) | Inr (v, fp) \<Rightarrow>
         (let s = s\<lparr>aterm := upd2 (aterm s) i j v\<rparr> in
          case sfread_double fp of Inl e \<Rightarrow> Inl (e, s) | Inr (v, fp) \<Rightarrow>
          (let s = s\<lparr>bterm := upd2 (bterm s) i j v\<rparr> in
           case sfread_double fp of Inl e \<Rightarrow> Inl (e, s) | Inr (v, fp) \<Rightarrow>
           (let s = s\<lparr>cterm := upd2 (cterm s) i j v\<rparr> in
            case sfread_double fp of Inl e \<Rightarrow> Inl (e, s) | Inr (v, fp) \<Rightarrow>
              Inr (s\<lparr>cut := upd2 (cut s) i j v\<rparr>, fp)))))
      else Inr (s, fp)))"

definition read_restart ::
  "engine \<Rightarrow> pair_state \<Rightarrow> pair_state \<times> datum list \<Rightarrow>
   error \<times> pair_state + pair_state \<times> datum list" where
  "read_restart E fresh sfp =
     (case read_restart_settings sfp of
        Inl e \<Rightarrow> Inl e
      | Inr (s, fp) \<Rightarrow>
          (let s = allocate E fresh s
           in foldE (\<lambda>i. foldE (\<lambda>j. read_entry i j) [i..ntypes E]) [1..ntypes E] (s, fp)))"

section \<open>Closed forms used in the proofs\<close>

text \<open>What \<^verbatim>\<open>init_one\<close> leaves in \<open>(i, j)\<close>: the coefficients and the cutoff of a
  pair after the block of lines 512 to 517.\<close>

definition coef_a :: "pair_state \<Rightarrow> int \<Rightarrow> int \<Rightarrow> real" where
  "coef_a s i j = (if setflag s i j = 0 then 0 else aterm s i j)"

definition coef_b :: "pair_state \<Rightarrow> int \<Rightarrow> int \<Rightarrow> real" where
  "coef_b s i j = (if setflag s i j = 0 then 0 else bterm s i j)"

definition coef_c :: "pair_state \<Rightarrow> int \<Rightarrow> int \<Rightarrow> real" where
  "coef_c s i j = (if setflag s i j = 0 then 0 else cterm s i j)"

definition cut_mixed :: "engine \<Rightarrow> pair_state \<Rightarrow> int \<Rightarrow> int \<Rightarrow> real" where
  "cut_mixed E s i j =
     (if setflag s i j = 0 then mix_distance E (cut s i i) (cut s j j) else cut s i j)"

definition init_tables :: "engine \<Rightarrow> int \<Rightarrow> int \<Rightarrow> pair_state \<Rightarrow> pair_state" where
  "init_tables E i j s = init_one_mirror i j (init_one_derive i j (init_one_mix E i j s))"

definition both :: "int \<Rightarrow> int \<Rightarrow> int \<Rightarrow> int \<Rightarrow> bool" where
  "both i j a b \<longleftrightarrow> (a = i \<and> b = j) \<or> (a = j \<and> b = i)"

definition respa_check :: "engine \<Rightarrow> pair_state \<Rightarrow> int \<Rightarrow> int \<Rightarrow> bool" where
  "respa_check E s i j =
     (case cut_respa s of None \<Rightarrow> False | Some (c0, c1, c2, c3) \<Rightarrow> cut_mixed E s i j < c3)"

text \<open>
  The force magnitude that each shell routine adds to the force array for one pair, zero
  when it skips the pair. \<open>snd (single s itype jtype rsq factor)\<close> is the unsmoothed
  magnitude \<open>factor_lj * forcelj * r2inv\<close>.
\<close>

definition inner_mag :: "pair_state \<Rightarrow> real \<times> real \<times> real \<times> real \<Rightarrow> int \<Rightarrow> int \<Rightarrow> real \<Rightarrow> real \<Rightarrow> real" where
  "inner_mag s cr itype jtype factor rsq =
     (case cr of (c0, c1, c2, c3) \<Rightarrow>
        if rsq < c1 * c1
        then (if rsq > c0 * c0
              then snd (single s itype jtype rsq factor) *
                   (1 - (sqrt rsq - c0) / (c1 - c0) * ((sqrt rsq - c0) / (c1 - c0)) *
                        (3 - 2 * ((sqrt rsq - c0) / (c1 - c0))))
              else snd (single s itype jtype rsq factor))
        else 0)"

definition middle_mag :: "pair_state \<Rightarrow> real \<times> real \<times> real \<times> real \<Rightarrow> int \<Rightarrow> int \<Rightarrow> real \<Rightarrow> real \<Rightarrow> real" where
  "middle_mag s cr itype jtype factor rsq =
     (case cr of (c0, c1, c2, c3) \<Rightarrow>
        if rsq < c3 * c3 \<and> rsq > c0 * c0
        then (if rsq < c1 * c1
              then (if rsq > c2 * c2
                    then snd (single s itype jtype rsq factor) *
                         ((sqrt rsq - c0) / (c1 - c0) * ((sqrt rsq - c0) / (c1 - c0)) *
                          (3 - 2 * ((sqrt rsq - c0) / (c1 - c0)))) *
                         (1 + (sqrt rsq - c2) / (c3 - c2) * ((sqrt rsq - c2) / (c3 - c2)) *
                              (2 * ((sqrt rsq - c2) / (c3 - c2)) - 3))
                    else snd (single s itype jtype rsq factor) *
                         ((sqrt rsq - c0) / (c1 - c0) * ((sqrt rsq - c0) / (c1 - c0)) *
                          (3 - 2 * ((sqrt rsq - c0) / (c1 - c0)))))
              else (if rsq > c2 * c2
                    then snd (single s itype jtype rsq factor) *
                         (1 + (sqrt rsq - c2) / (c3 - c2) * ((sqrt rsq - c2) / (c3 - c2)) *
                              (2 * ((sqrt rsq - c2) / (c3 - c2)) - 3))
                    else snd (single s itype jtype rsq factor)))
        else 0)"

definition outer_mag :: "pair_state \<Rightarrow> real \<times> real \<times> real \<times> real \<Rightarrow> int \<Rightarrow> int \<Rightarrow> real \<Rightarrow> real \<Rightarrow> real" where
  "outer_mag s cr itype jtype factor rsq =
     (case cr of (c0, c1, c2, c3) \<Rightarrow>
        if rsq > c2 * c2
        then (if rsq < c3 * c3
              then snd (single s itype jtype rsq factor) *
                   ((sqrt rsq - c2) / (c3 - c2) * ((sqrt rsq - c2) / (c3 - c2)) *
                    (3 - 2 * ((sqrt rsq - c2) / (c3 - c2))))
              else snd (single s itype jtype rsq factor))
        else 0)"

text \<open>
  Follows the spec's words: the pair energy \<open>U(r) = a r\<^sup>-\<^sup>1\<^sup>2 - b r\<^sup>-\<^sup>1\<^sup>0 + c r\<^sup>-\<^sup>6\<close>, with its
  first and second derivative in \<open>r\<close>.
\<close>

definition pair_energy :: "real \<Rightarrow> real \<Rightarrow> real \<Rightarrow> real \<Rightarrow> real" where
  "pair_energy a b c r = a / r ^ 12 - b / r ^ 10 + c / r ^ 6"

definition pair_energy_d1 :: "real \<Rightarrow> real \<Rightarrow> real \<Rightarrow> real \<Rightarrow> real" where
  "pair_energy_d1 a b c r = - 12 * a / r ^ 13 + 10 * b / r ^ 11 - 6 * c / r ^ 7"

definition pair_energy_d2 :: "real \<Rightarrow> real \<Rightarrow> real \<Rightarrow> real \<Rightarrow> real" where
  "pair_energy_d2 a b c r = 156 * a / r ^ 14 - 110 * b / r ^ 12 + 42 * c / r ^ 8"

text \<open>
  What \<^verbatim>\<open>write_restart\<close> writes for the pair \<open>(i, j)\<close>, what reading it back puts
  into a table \<open>t\<close>, and the table that reading a whole file written from \<open>s\<close> builds in
  freshly allocated memory.
\<close>

definition entry_items :: "pair_state \<Rightarrow> int \<Rightarrow> int \<Rightarrow> datum list" where
  "entry_items s i j =
     Int_datum (setflag s i j) #
     (if setflag s i j \<noteq> 0
      then [Double_datum (aterm s i j), Double_datum (bterm s i j), Double_datum (cterm s i j),
            Double_datum (cut s i j)]
      else [])"

definition restore_entry :: "pair_state \<Rightarrow> int \<Rightarrow> int \<Rightarrow> pair_state \<Rightarrow> pair_state" where
  "restore_entry s i j t =
     (if setflag s i j \<noteq> 0
      then t\<lparr>setflag := upd2 (setflag t) i j (setflag s i j),
             aterm := upd2 (aterm t) i j (aterm s i j),
             bterm := upd2 (bterm t) i j (bterm s i j),
             cterm := upd2 (cterm t) i j (cterm s i j),
             cut := upd2 (cut t) i j (cut s i j)\<rparr>
      else t\<lparr>setflag := upd2 (setflag t) i j 0\<rparr>)"

definition restored :: "engine \<Rightarrow> pair_state \<Rightarrow> pair_state \<Rightarrow> pair_state \<Rightarrow> pair_state" where
  "restored E fresh s s0 =
     fold (\<lambda>i. fold (restore_entry s i) [i..ntypes E]) [1..ntypes E]
       (allocate E fresh
          (s0\<lparr>cut_global := cut_global s, offset_flag := offset_flag s,
              mix_flag := mix_flag s, tail_flag := tail_flag s\<rparr>))"

text \<open>The state in which a run of \<^verbatim>\<open>init_one\<close> ends, with or without error.\<close>

definition init_one_state :: "error \<times> pair_state + real \<times> pair_state \<Rightarrow> pair_state" where
  "init_one_state r = (case r of Inl (e, s) \<Rightarrow> s | Inr (c, s) \<Rightarrow> s)"

section \<open>Concrete data\<close>

text \<open>Memory that happens to hold zeros, and a pair style that has not allocated.\<close>

definition zero_state :: pair_state where
  "zero_state =
     \<lparr>allocated = False, setflag = (\<lambda>_ _. 0), cutsq = (\<lambda>_ _. 0), cut = (\<lambda>_ _. 0),
      aterm = (\<lambda>_ _. 0), bterm = (\<lambda>_ _. 0), cterm = (\<lambda>_ _. 0),
      lj1 = (\<lambda>_ _. 0), lj2 = (\<lambda>_ _. 0), lj3 = (\<lambda>_ _. 0), lj4 = (\<lambda>_ _. 0),
      lj5 = (\<lambda>_ _. 0), lj6 = (\<lambda>_ _. 0), offset = (\<lambda>_ _. 0),
      cut_global = 0, offset_flag = 0, mix_flag = 0, tail_flag = 0, cut_respa = None,
      etail_ij = 0, ptail_ij = 0\<rparr>"

text \<open>
  Two atom types. Pair \<open>(1, 1)\<close> is set to \<open>a = 1000, b = 2000, c = 50\<close> with cutoff 10,
  pair \<open>(2, 2)\<close> to \<open>a = 0, b = 0, c = 1\<close> with cutoff 12, and \<open>(1, 2)\<close> is not set: the
  state after the two matching \<^verbatim>\<open>pair_coeff\<close> commands on zeroed memory.
\<close>

definition demo_state :: pair_state where
  "demo_state = zero_state
     \<lparr>allocated := True,
      setflag := upd2 (upd2 (\<lambda>_ _. 0) 1 1 1) 2 2 1,
      cut := upd2 (upd2 (\<lambda>_ _. 0) 1 1 10) 2 2 12,
      aterm := upd2 (\<lambda>_ _. 0) 1 1 1000,
      bterm := upd2 (\<lambda>_ _. 0) 1 1 2000,
      cterm := upd2 (upd2 (\<lambda>_ _. 0) 1 1 50) 2 2 1,
      cut_global := 10\<rparr>"

text \<open>The same with the cross pair \<open>(1, 2)\<close> set to \<open>a = 3, b = 4, c = 5\<close>, cutoff 11.\<close>

definition cross_state :: pair_state where
  "cross_state = demo_state
     \<lparr>setflag := upd2 (setflag demo_state) 1 2 1,
      cut := upd2 (cut demo_state) 1 2 11,
      aterm := upd2 (aterm demo_state) 1 2 3,
      bterm := upd2 (bterm demo_state) 1 2 4,
      cterm := upd2 (cterm demo_state) 1 2 5\<rparr>"

text \<open>A parser that knows the few words used below, and an engine with two types.\<close>

definition toy_numeric :: "string \<Rightarrow> error + real" where
  "toy_numeric str =
     (if str = ''1000'' then Inr 1000
      else if str = ''2000'' then Inr 2000
      else if str = ''50'' then Inr 50
      else if str = ''10'' then Inr 10
      else if str = ''12'' then Inr 12
      else Inl (Error_all ''Expected floating point parameter''))"

definition toy_bounds :: "string \<Rightarrow> int \<Rightarrow> int \<Rightarrow> error + int \<times> int" where
  "toy_bounds str nmin nmax =
     (if str = ''1'' then Inr (1, 1)
      else if str = ''2'' then Inr (2, 2)
      else if str = ''*'' then Inr (nmin, nmax)
      else Inl (Error_all ''Invalid range string''))"

definition E0 :: engine where
  "E0 = \<lparr>ntypes = 2, nlocal = 2, atom_type = (\<lambda>_. 1), atom_x = (\<lambda>_. (0, 0, 0)),
          special_lj = (\<lambda>_. 1), newton_pair = 1, sbmask = (\<lambda>_. 0), neighmask = (\<lambda>j. j),
          mix_distance = (\<lambda>a b. (a + b) / 2), numeric = toy_numeric, bounds = toy_bounds,
          allreduce_sum = (\<lambda>c. c), ev_init = (\<lambda>e v. (1, 0)),
          whichflag = 1, integrate_style = ''verlet'', level_inner = - 1, level_middle = - 1,
          respa_cutoff = (0, 0, 0, 0)\<rparr>"

text \<open>The pair style under a multiple-timescale integrator with shells 4, 5, 6, 11.\<close>

definition respa_state :: pair_state where
  "respa_state = demo_state\<lparr>cut_respa := Some (4, 5, 6, 11)\<rparr>"

definition empty_list :: neigh_list where
  "empty_list = \<lparr>ilist = [], firstneigh = (\<lambda>_. []), ilist_inner = [],
                  firstneigh_inner = (\<lambda>_. []), ilist_middle = [], firstneigh_middle = (\<lambda>_. [])\<rparr>"

definition zero_locals :: locals where
  "zero_locals = \<lparr>evdwl = 0, fpair = 0, r2inv = 0, r6inv = 0, forcelj = 0, rsw = 0\<rparr>"

definition zero_sim :: sim where
  "zero_sim = \<lparr>atom_f = (\<lambda>_. (0, 0, 0)), tallies = []\<rparr>"

text \<open>The demonstration table after \<^verbatim>\<open>init_one(1, 1)\<close> and after
  \<^verbatim>\<open>init_one(2, 2)\<close>.\<close>

definition final11 :: pair_state where
  "final11 = snd (projr (init_one E0 1 1 demo_state))"

definition final22 :: pair_state where
  "final22 = snd (projr (init_one E0 2 2 demo_state))"

text \<open>The demonstration table after \<^verbatim>\<open>init_one(1, 2)\<close>: the cross pair is not set
  and has the mixed cutoff 11.\<close>

definition final12 :: pair_state where
  "final12 = snd (projr (init_one E0 1 2 demo_state))"

section \<open>Lemmas\<close>

lemma upd2_apply: "upd2 A i j v a b = (if a = i \<and> b = j then v else A a b)"
  by (simp add: upd2_def)

lemma upd2_same: "upd2 A i j (A i j) = A"
  by (simp add: upd2_def)

subsection \<open>The loops of allocate and settings\<close>

lemma allocate_inner:
  "fold (\<lambda>j sf. upd2 sf i j (0::int)) js sf = (\<lambda>a b. if a = i \<and> b \<in> set js then 0 else sf a b)"
  by (induction js arbitrary: sf) (auto simp: upd2_apply fun_eq_iff)

lemma allocate_outer:
  "fold (\<lambda>i sf. fold (\<lambda>j sf. upd2 sf i j (0::int)) [i..m] sf) is sf =
     (\<lambda>a b. if a \<in> set is \<and> a \<le> b \<and> b \<le> m then 0 else sf a b)"
  by (induction "is" arbitrary: sf) (auto simp: allocate_inner fun_eq_iff)

lemma setflag_allocate:
  "setflag (allocate E fresh s) i j =
     (if 1 \<le> i \<and> i \<le> j \<and> j \<le> ntypes E then 0 else setflag fresh i j)"
  by (simp add: allocate_def Let_def allocate_outer)

lemma allocate_fields:
  "allocated (allocate E fresh s) = True"
  "cut (allocate E fresh s) = cut fresh"
  "aterm (allocate E fresh s) = aterm fresh"
  "bterm (allocate E fresh s) = bterm fresh"
  "cterm (allocate E fresh s) = cterm fresh"
  "cut_global (allocate E fresh s) = cut_global s"
  "offset_flag (allocate E fresh s) = offset_flag s"
  "mix_flag (allocate E fresh s) = mix_flag s"
  "tail_flag (allocate E fresh s) = tail_flag s"
  "cut_respa (allocate E fresh s) = cut_respa s"
  by (simp_all add: allocate_def Let_def)

lemma cut_update_cong: "f = g \<Longrightarrow> s\<lparr>cut := f\<rparr> = s\<lparr>cut := g\<rparr>"
  by simp

lemma settings_inner:
  "fold (\<lambda>j s. if setflag s i j \<noteq> 0 then s\<lparr>cut := upd2 (cut s) i j (cut_global s)\<rparr> else s) js s =
     s\<lparr>cut := \<lambda>a b. if a = i \<and> b \<in> set js \<and> setflag s a b \<noteq> 0
                      then cut_global s else cut s a b\<rparr>"
proof (induction js arbitrary: s)
  case Nil
  show ?case by simp
next
  case (Cons j js)
  show ?case
    by (cases "setflag s i j = 0")
       (auto simp: Cons.IH upd2_apply fun_eq_iff intro!: cut_update_cong)
qed

lemma settings_outer:
  "fold (\<lambda>i s. s\<lparr>cut := \<lambda>a b. if a = i \<and> i \<le> b \<and> b \<le> m \<and> setflag s a b \<noteq> 0
                             then cut_global s else cut s a b\<rparr>) is s =
     s\<lparr>cut := \<lambda>a b. if a \<in> set is \<and> a \<le> b \<and> b \<le> m \<and> setflag s a b \<noteq> 0
                      then cut_global s else cut s a b\<rparr>"
proof (induction "is" arbitrary: s)
  case Nil
  show ?case by simp
next
  case (Cons i "is")
  show ?case
    by (simp add: Cons.IH) (auto simp: fun_eq_iff intro!: cut_update_cong)
qed

lemma settings_reset_eq:
  "settings_reset E s =
     s\<lparr>cut := \<lambda>i j. if 1 \<le> i \<and> i \<le> j \<and> j \<le> ntypes E \<and> setflag s i j \<noteq> 0
                      then cut_global s else cut s i j\<rparr>"
  by (simp add: settings_reset_def settings_inner settings_outer)
     (auto simp: fun_eq_iff intro!: cut_update_cong)

subsection \<open>The blocks of init\_one\<close>

lemma mix_frame:
  "allocated (init_one_mix E i j s) = allocated s"
  "setflag (init_one_mix E i j s) = setflag s"
  "cutsq (init_one_mix E i j s) = cutsq s"
  "lj1 (init_one_mix E i j s) = lj1 s"
  "lj2 (init_one_mix E i j s) = lj2 s"
  "lj3 (init_one_mix E i j s) = lj3 s"
  "lj4 (init_one_mix E i j s) = lj4 s"
  "lj5 (init_one_mix E i j s) = lj5 s"
  "lj6 (init_one_mix E i j s) = lj6 s"
  "offset (init_one_mix E i j s) = offset s"
  "cut_global (init_one_mix E i j s) = cut_global s"
  "offset_flag (init_one_mix E i j s) = offset_flag s"
  "mix_flag (init_one_mix E i j s) = mix_flag s"
  "tail_flag (init_one_mix E i j s) = tail_flag s"
  "cut_respa (init_one_mix E i j s) = cut_respa s"
  "etail_ij (init_one_mix E i j s) = etail_ij s"
  "ptail_ij (init_one_mix E i j s) = ptail_ij s"
  by (simp_all add: init_one_mix_def)

lemma mix_coeffs:
  "aterm (init_one_mix E i j s) = (if setflag s i j = 0 then upd2 (aterm s) i j 0 else aterm s)"
  "bterm (init_one_mix E i j s) = (if setflag s i j = 0 then upd2 (bterm s) i j 0 else bterm s)"
  "cterm (init_one_mix E i j s) = (if setflag s i j = 0 then upd2 (cterm s) i j 0 else cterm s)"
  "cut (init_one_mix E i j s) =
     (if setflag s i j = 0 then upd2 (cut s) i j (mix_distance E (cut s i i) (cut s j j))
      else cut s)"
  by (simp_all add: init_one_mix_def)

lemma derive_frame:
  "allocated (init_one_derive i j s) = allocated s"
  "setflag (init_one_derive i j s) = setflag s"
  "cutsq (init_one_derive i j s) = cutsq s"
  "cut (init_one_derive i j s) = cut s"
  "aterm (init_one_derive i j s) = aterm s"
  "bterm (init_one_derive i j s) = bterm s"
  "cterm (init_one_derive i j s) = cterm s"
  "cut_global (init_one_derive i j s) = cut_global s"
  "offset_flag (init_one_derive i j s) = offset_flag s"
  "mix_flag (init_one_derive i j s) = mix_flag s"
  "tail_flag (init_one_derive i j s) = tail_flag s"
  "cut_respa (init_one_derive i j s) = cut_respa s"
  "etail_ij (init_one_derive i j s) = etail_ij s"
  "ptail_ij (init_one_derive i j s) = ptail_ij s"
  by (simp_all add: init_one_derive_def upd2_same)

lemma derive_lj:
  "lj1 (init_one_derive i j s) = upd2 (lj1 s) i j (12 * aterm s i j)"
  "lj2 (init_one_derive i j s) = upd2 (lj2 s) i j (10 * bterm s i j)"
  "lj3 (init_one_derive i j s) = upd2 (lj3 s) i j (6 * cterm s i j)"
  "lj4 (init_one_derive i j s) = upd2 (lj4 s) i j (aterm s i j)"
  "lj5 (init_one_derive i j s) = upd2 (lj5 s) i j (bterm s i j)"
  "lj6 (init_one_derive i j s) = upd2 (lj6 s) i j (cterm s i j)"
  "offset (init_one_derive i j s) = upd2 (offset s) i j 0"
  by (simp_all add: init_one_derive_def)

lemma mirror_frame:
  "allocated (init_one_mirror i j s) = allocated s"
  "setflag (init_one_mirror i j s) = setflag s"
  "cutsq (init_one_mirror i j s) = cutsq s"
  "cut (init_one_mirror i j s) = cut s"
  "aterm (init_one_mirror i j s) = aterm s"
  "bterm (init_one_mirror i j s) = bterm s"
  "cterm (init_one_mirror i j s) = cterm s"
  "cut_global (init_one_mirror i j s) = cut_global s"
  "offset_flag (init_one_mirror i j s) = offset_flag s"
  "mix_flag (init_one_mirror i j s) = mix_flag s"
  "tail_flag (init_one_mirror i j s) = tail_flag s"
  "cut_respa (init_one_mirror i j s) = cut_respa s"
  "etail_ij (init_one_mirror i j s) = etail_ij s"
  "ptail_ij (init_one_mirror i j s) = ptail_ij s"
  by (simp_all add: init_one_mirror_def)

lemma mirror_lj:
  "lj1 (init_one_mirror i j s) = upd2 (lj1 s) j i (lj1 s i j)"
  "lj2 (init_one_mirror i j s) = upd2 (lj2 s) j i (lj2 s i j)"
  "lj3 (init_one_mirror i j s) = upd2 (lj3 s) j i (lj3 s i j)"
  "lj4 (init_one_mirror i j s) = upd2 (lj4 s) j i (lj4 s i j)"
  "lj5 (init_one_mirror i j s) = upd2 (lj5 s) j i (lj5 s i j)"
  "lj6 (init_one_mirror i j s) = upd2 (lj6 s) j i (lj6 s i j)"
  "offset (init_one_mirror i j s) = upd2 (offset s) j i (offset s i j)"
  by (simp_all add: init_one_mirror_def)

lemmas init_blocks = mix_frame mix_coeffs derive_frame derive_lj mirror_frame mirror_lj

lemma tables_aterm:
  "aterm (init_tables E i j s) a b = (if a = i \<and> b = j then coef_a s i j else aterm s a b)"
  by (simp add: init_tables_def init_blocks coef_a_def upd2_apply)

lemma tables_bterm:
  "bterm (init_tables E i j s) a b = (if a = i \<and> b = j then coef_b s i j else bterm s a b)"
  by (simp add: init_tables_def init_blocks coef_b_def upd2_apply)

lemma tables_cterm:
  "cterm (init_tables E i j s) a b = (if a = i \<and> b = j then coef_c s i j else cterm s a b)"
  by (simp add: init_tables_def init_blocks coef_c_def upd2_apply)

lemma tables_cut:
  "cut (init_tables E i j s) a b = (if a = i \<and> b = j then cut_mixed E s i j else cut s a b)"
  by (simp add: init_tables_def init_blocks cut_mixed_def upd2_apply)

lemma tables_lj1:
  "lj1 (init_tables E i j s) a b = (if both i j a b then 12 * coef_a s i j else lj1 s a b)"
  by (cases "i = j") (simp_all add: init_tables_def init_blocks coef_a_def both_def upd2_apply)

lemma tables_lj2:
  "lj2 (init_tables E i j s) a b = (if both i j a b then 10 * coef_b s i j else lj2 s a b)"
  by (cases "i = j") (simp_all add: init_tables_def init_blocks coef_b_def both_def upd2_apply)

lemma tables_lj3:
  "lj3 (init_tables E i j s) a b = (if both i j a b then 6 * coef_c s i j else lj3 s a b)"
  by (cases "i = j") (simp_all add: init_tables_def init_blocks coef_c_def both_def upd2_apply)

lemma tables_lj4:
  "lj4 (init_tables E i j s) a b = (if both i j a b then coef_a s i j else lj4 s a b)"
  by (cases "i = j") (simp_all add: init_tables_def init_blocks coef_a_def both_def upd2_apply)

lemma tables_lj5:
  "lj5 (init_tables E i j s) a b = (if both i j a b then coef_b s i j else lj5 s a b)"
  by (cases "i = j") (simp_all add: init_tables_def init_blocks coef_b_def both_def upd2_apply)

lemma tables_lj6:
  "lj6 (init_tables E i j s) a b = (if both i j a b then coef_c s i j else lj6 s a b)"
  by (cases "i = j") (simp_all add: init_tables_def init_blocks coef_c_def both_def upd2_apply)

lemma tables_offset:
  "offset (init_tables E i j s) a b = (if both i j a b then 0 else offset s a b)"
  by (cases "i = j") (simp_all add: init_tables_def init_blocks both_def upd2_apply)

lemmas tables_fields = tables_aterm tables_bterm tables_cterm tables_cut tables_lj1 tables_lj2
  tables_lj3 tables_lj4 tables_lj5 tables_lj6 tables_offset

lemma tables_frame:
  "setflag (init_tables E i j s) = setflag s"
  "cutsq (init_tables E i j s) = cutsq s"
  "cut_respa (init_tables E i j s) = cut_respa s"
  "tail_flag (init_tables E i j s) = tail_flag s"
  "allocated (init_tables E i j s) = allocated s"
  "cut_global (init_tables E i j s) = cut_global s"
  "offset_flag (init_tables E i j s) = offset_flag s"
  "mix_flag (init_tables E i j s) = mix_flag s"
  by (simp_all add: init_tables_def init_blocks)

lemma tail_frame:
  "aterm (tail_correction E i j s) = aterm s"
  "bterm (tail_correction E i j s) = bterm s"
  "cterm (tail_correction E i j s) = cterm s"
  "cut (tail_correction E i j s) = cut s"
  "lj1 (tail_correction E i j s) = lj1 s"
  "lj2 (tail_correction E i j s) = lj2 s"
  "lj3 (tail_correction E i j s) = lj3 s"
  "lj4 (tail_correction E i j s) = lj4 s"
  "lj5 (tail_correction E i j s) = lj5 s"
  "lj6 (tail_correction E i j s) = lj6 s"
  "offset (tail_correction E i j s) = offset s"
  "setflag (tail_correction E i j s) = setflag s"
  "cutsq (tail_correction E i j s) = cutsq s"
  "cut_respa (tail_correction E i j s) = cut_respa s"
  by (simp_all add: tail_correction_def Let_def split: prod.splits)

lemma init_one_eq:
  "init_one E i j s =
     (if respa_check E s i j
      then Inl (Error_all ''Pair cutoff < Respa interior cutoff'', init_tables E i j s)
      else Inr (cut_mixed E s i j, tail_correction E i j (init_tables E i j s)))"
proof -
  have "init_one E i j s =
     (if (case cut_respa (init_tables E i j s) of None \<Rightarrow> False
          | Some (c0, c1, c2, c3) \<Rightarrow> cut (init_tables E i j s) i j < c3)
      then Inl (Error_all ''Pair cutoff < Respa interior cutoff'', init_tables E i j s)
      else Inr (cut (tail_correction E i j (init_tables E i j s)) i j,
                tail_correction E i j (init_tables E i j s)))"
    unfolding init_one_def init_tables_def Let_def ..
  then show ?thesis
    by (simp add: respa_check_def tables_frame tables_cut tail_frame cong: option.case_cong)
qed

lemma init_one_state_eq:
  "init_one_state (init_one E i j s) =
     (if respa_check E s i j then init_tables E i j s
      else tail_correction E i j (init_tables E i j s))"
  by (simp add: init_one_eq init_one_state_def)

lemma demo_fields:
  "setflag demo_state = upd2 (upd2 (\<lambda>_ _. 0) 1 1 1) 2 2 1"
  "cut demo_state = upd2 (upd2 (\<lambda>_ _. 0) 1 1 10) 2 2 12"
  "aterm demo_state = upd2 (\<lambda>_ _. 0) 1 1 1000"
  "bterm demo_state = upd2 (\<lambda>_ _. 0) 1 1 2000"
  "cterm demo_state = upd2 (upd2 (\<lambda>_ _. 0) 1 1 50) 2 2 1"
  "cut_respa demo_state = None"
  "allocated demo_state = True"
  "cut_global demo_state = 10"
  "tail_flag demo_state = 0"
  by (simp_all add: demo_state_def zero_state_def)

lemma cross_fields:
  "setflag cross_state = upd2 (setflag demo_state) 1 2 1"
  "cut cross_state = upd2 (cut demo_state) 1 2 11"
  "aterm cross_state = upd2 (aterm demo_state) 1 2 3"
  "bterm cross_state = upd2 (bterm demo_state) 1 2 4"
  "cterm cross_state = upd2 (cterm demo_state) 1 2 5"
  "cut_respa cross_state = None"
  by (simp_all add: cross_state_def demo_fields)

section \<open>The coefficient table: init\_one and settings\<close>

text \<open>
  C3, as amended. After a successful \<^verbatim>\<open>init_one(i, j)\<close> the derived constants
  \<open>lj1 .. lj6\<close> and \<open>offset\<close> of \<open>(j, i)\<close> equal those of \<open>(i, j)\<close>. The inputs are not
  mirrored: for \<open>i \<noteq> j\<close> the entries \<open>aterm\<close>, \<open>bterm\<close>, \<open>cterm\<close> and \<open>cut\<close> of \<open>(j, i)\<close>
  keep the values they had before the call.
\<close>

theorem init_one_symmetric_derived:
  assumes "init_one E i j s = Inr (c, s')"
  shows "lj1 s' j i = lj1 s' i j \<and> lj2 s' j i = lj2 s' i j \<and> lj3 s' j i = lj3 s' i j \<and>
         lj4 s' j i = lj4 s' i j \<and> lj5 s' j i = lj5 s' i j \<and> lj6 s' j i = lj6 s' i j \<and>
         offset s' j i = offset s' i j \<and>
         (i \<noteq> j \<longrightarrow> aterm s' j i = aterm s j i \<and> bterm s' j i = bterm s j i \<and>
                      cterm s' j i = cterm s j i \<and> cut s' j i = cut s j i)"
proof -
  from assms have s': "s' = tail_correction E i j (init_tables E i j s)"
    by (simp add: init_one_eq split: if_splits)
  show ?thesis
    unfolding s' by (simp add: tail_frame tables_fields both_def)
qed

theorem init_one_symmetric_derived_witness:
  "init_one E0 1 2 cross_state =
     Inr (11, snd (projr (init_one E0 1 2 cross_state))) \<and>
   lj1 (snd (projr (init_one E0 1 2 cross_state))) 1 2 = 36 \<and>
   lj1 (snd (projr (init_one E0 1 2 cross_state))) 2 1 = 36 \<and>
   aterm (snd (projr (init_one E0 1 2 cross_state))) 2 1 = aterm cross_state 2 1"
proof -
  have run: "init_one E0 1 2 cross_state =
      Inr (11, snd (projr (init_one E0 1 2 cross_state)))"
    by (simp add: init_one_eq respa_check_def cut_mixed_def cross_fields upd2_apply)
  have "lj1 (snd (projr (init_one E0 1 2 cross_state))) 1 2 = 36"
    by (simp add: init_one_eq respa_check_def cross_fields tail_frame tables_fields both_def
        coef_a_def upd2_apply)
  with run init_one_symmetric_derived [OF run] show ?thesis
    by simp
qed

text \<open>
  C3 as stated fails: with the cross pair \<open>(1, 2)\<close> set to \<open>a = 3\<close> and cutoff 11 on
  zeroed memory, \<^verbatim>\<open>init_one(1, 2)\<close> leaves \<open>aterm[2][1]\<close> and \<open>cut[2][1]\<close> at
  zero.
\<close>

theorem init_one_inputs_not_mirrored:
  "aterm (snd (projr (init_one E0 1 2 cross_state))) 1 2 = 3 \<and>
   aterm (snd (projr (init_one E0 1 2 cross_state))) 2 1 = 0 \<and>
   cut (snd (projr (init_one E0 1 2 cross_state))) 1 2 = 11 \<and>
   cut (snd (projr (init_one E0 1 2 cross_state))) 2 1 = 0"
  by (simp add: init_one_eq respa_check_def cross_fields demo_fields tail_frame tables_fields
      coef_a_def cut_mixed_def upd2_apply)

text \<open>
  C9. With a multi-timescale integrator (\<open>cut_respa\<close> not null) \<^verbatim>\<open>init_one(i, j)\<close>
  ends the run with ``Pair cutoff < Respa interior cutoff'' exactly when the cutoff of
  the pair (mixed, if the pair is not set) is smaller than \<open>cut_respa[3]\<close>. The three
  shell routines have no error exit: they return a result whatever the cutoffs are.
\<close>

theorem init_one_respa_cutoff_check:
  assumes "cut_respa s = Some (c0, c1, c2, c3)"
  shows "(cut_mixed E s i j < c3 \<longrightarrow>
            (\<exists>t. init_one E i j s =
                    Inl (Error_all ''Pair cutoff < Respa interior cutoff'', t))) \<and>
         (\<not> cut_mixed E s i j < c3 \<longrightarrow> (\<exists>t. init_one E i j s = Inr (cut_mixed E s i j, t))) \<and>
         compute_inner E s nl L0 \<sigma> \<noteq> None \<and>
         compute_middle E s nl L0 \<sigma> \<noteq> None \<and>
         compute_outer E s nl eflag vflag L0 \<sigma> \<noteq> None"
  using assms
  by (simp add: init_one_eq respa_check_def compute_inner_def compute_middle_def
      compute_outer_def Let_def split: prod.splits)

theorem init_one_respa_cutoff_check_witness:
  "cut_respa respa_state = Some (4, 5, 6, 11) \<and>
   cut_mixed E0 respa_state 1 1 < 11 \<and>
   isl (init_one E0 1 1 respa_state) \<and>
   \<not> cut_mixed E0 respa_state 2 2 < 11 \<and>
   \<not> isl (init_one E0 2 2 respa_state) \<and>
   compute_inner E0 respa_state empty_list zero_locals zero_sim \<noteq> None"
  using init_one_respa_cutoff_check [of respa_state 4 5 6 11 E0 1 1 empty_list zero_locals
          zero_sim 0 0]
        init_one_respa_cutoff_check [of respa_state 4 5 6 11 E0 2 2 empty_list zero_locals
          zero_sim 0 0]
  by (auto simp add: respa_state_def cut_mixed_def demo_fields upd2_apply)

text \<open>
  C10. On an allocated table \<^verbatim>\<open>settings\<close> with one argument that parses to \<open>v\<close>
  stores \<open>v\<close> as the global cutoff and overwrites \<open>cut[i][j]\<close> for every
  \<open>1 \<le> i \<le> j \<le> ntypes\<close> whose \<open>setflag\<close> is not zero, whatever cutoff the pair had
  been given; nothing else changes (in particular \<open>aterm\<close>, \<open>bterm\<close>, \<open>cterm\<close>,
  \<open>setflag\<close> and the cutoffs of pairs that are not set).
\<close>

theorem settings_overwrites_set_cutoffs:
  assumes "allocated s" and "numeric E str = Inr v"
  shows "settings E [str] s =
           Inr (s\<lparr>cut_global := v,
                  cut := \<lambda>i j. if 1 \<le> i \<and> i \<le> j \<and> j \<le> ntypes E \<and> setflag s i j \<noteq> 0
                                then v else cut s i j\<rparr>)"
proof -
  have "settings E [str] s = Inr (settings_reset E (s\<lparr>cut_global := v\<rparr>))"
    using assms by (simp add: settings_def Let_def)
  also have "settings_reset E (s\<lparr>cut_global := v\<rparr>) =
      s\<lparr>cut_global := v,
        cut := \<lambda>i j. if 1 \<le> i \<and> i \<le> j \<and> j \<le> ntypes E \<and> setflag s i j \<noteq> 0
                      then v else cut s i j\<rparr>"
    by (simp add: settings_reset_eq) (auto simp: fun_eq_iff intro!: cut_update_cong)
  finally show ?thesis .
qed

theorem settings_overwrites_set_cutoffs_witness:
  "allocated cross_state \<and> numeric E0 ''12'' = Inr 12 \<and>
   cut cross_state 1 2 = 11 \<and>
   cut (projr (settings E0 [''12''] cross_state)) 1 2 = 12 \<and>
   cut (projr (settings E0 [''12''] cross_state)) 2 1 = 0 \<and>
   aterm (projr (settings E0 [''12''] cross_state)) = aterm cross_state"
proof -
  have h: "allocated cross_state" "numeric E0 ''12'' = Inr 12"
    by (simp_all add: cross_state_def demo_fields E0_def toy_numeric_def)
  show ?thesis
    using h settings_overwrites_set_cutoffs [OF h]
    by (simp add: cross_fields demo_fields upd2_apply E0_def)
qed

section \<open>The coefficient table: coeff\<close>

lemma coeff_assign_fst: "fst (coeff_assign a b c rc i j cs) = fst cs + 1"
  by (simp add: coeff_assign_def split: prod.splits)

lemma coeff_row_fst:
  "fst (fold (coeff_assign a b c rc i) js cs) = fst cs + int (length js)"
  by (induction js arbitrary: cs) (simp_all add: coeff_assign_fst)

text \<open>The counter never decreases, and it stays where it was only if no entry was written.\<close>

lemma coeff_rows:
  "fst cs \<le> fst (fold (\<lambda>i. fold (coeff_assign a b c rc i) (js i)) is cs) \<and>
   (fst (fold (\<lambda>i. fold (coeff_assign a b c rc i) (js i)) is cs) = fst cs \<longrightarrow>
      fold (\<lambda>i. fold (coeff_assign a b c rc i) (js i)) is cs = cs)"
proof (induction "is" arbitrary: cs)
  case Nil
  show ?case by simp
next
  case (Cons i "is")
  let ?cs1 = "fold (coeff_assign a b c rc i) (js i) cs"
  let ?r = "fold (\<lambda>i. fold (coeff_assign a b c rc i) (js i)) is ?cs1"
  have row: "fst ?cs1 = fst cs + int (length (js i))"
    by (rule coeff_row_fst)
  from Cons.IH [of ?cs1]
  have ih: "fst ?cs1 \<le> fst ?r" "fst ?r = fst ?cs1 \<Longrightarrow> ?r = ?cs1"
    by simp_all
  have le: "fst cs \<le> fst ?r"
    using row ih(1) by simp
  have eq: "?r = cs" if "fst ?r = fst cs"
  proof -
    from that row ih(1) have "js i = []" by simp
    then have "?cs1 = cs" by simp
    with that ih(2) show ?thesis by simp
  qed
  show ?case using le eq by simp
qed

lemma coeff_loop_count:
  assumes "coeff_loop ilo ihi jlo jhi a b c rc (0, s) = (count, s')"
  shows "0 \<le> count \<and> (count = 0 \<longrightarrow> s' = s)"
  using coeff_rows [of "(0, s)" a b c rc "\<lambda>i. [max jlo i..jhi]" "[ilo..ihi]"] assms
  by (auto simp: coeff_loop_def)

lemma coeff_loop_empty:
  assumes "\<forall>i. ilo \<le> i \<and> i \<le> ihi \<longrightarrow> jhi < max jlo i"
  shows "coeff_loop ilo ihi jlo jhi a b c rc cs = cs"
proof -
  have "fold (\<lambda>i. fold (coeff_assign a b c rc i) [max jlo i..jhi]) is cs = cs"
    if "\<forall>i \<in> set is. jhi < max jlo i" for "is"
    using that by (induction "is") simp_all
  from this [of "[ilo..ihi]"] assms show ?thesis
    by (simp add: coeff_loop_def)
qed

text \<open>
  Whatever makes \<^verbatim>\<open>coeff\<close> end the run, no entry has been written by then: the
  state is the one of the call, allocated first if it was not.
\<close>

lemma coeff_failure_state:
  assumes "coeff E fresh arg s = Inl (e, s')"
  shows "s' = (if allocated s then s else allocate E fresh s) \<or> s' = s"
  using assms
  by (auto simp: coeff_def Let_def split: if_splits sum.splits prod.splits
      dest: coeff_loop_count)

text \<open>
  C8. \<^verbatim>\<open>coeff\<close> with fewer than five or more than six arguments (two type ranges
  and fewer than three or more than four values) ends the run with ``Incorrect args for
  pair coefficients'' in the state it was called in. With five or six arguments that
  parse, and type ranges for which the double loop visits no pair, it ends the run with
  the same message; no entry has been written: the state is the one it was called in, or,
  if the tables did not exist yet, that state after \<^verbatim>\<open>allocate\<close>.
\<close>

theorem coeff_rejects_bad_arguments:
  "(length arg < 5 \<or> 6 < length arg \<longrightarrow>
      coeff E fresh arg s = Inl (Error_all ''Incorrect args for pair coefficients'', s)) \<and>
   ((length arg = 5 \<or> length arg = 6) \<and>
    bounds E (arg ! 0) 1 (ntypes E) = Inr (ilo, ihi) \<and>
    bounds E (arg ! 1) 1 (ntypes E) = Inr (jlo, jhi) \<and>
    numeric E (arg ! 2) = Inr a \<and> numeric E (arg ! 3) = Inr b \<and> numeric E (arg ! 4) = Inr c \<and>
    (length arg = 6 \<longrightarrow> numeric E (arg ! 5) = Inr rc) \<and>
    (\<forall>i. ilo \<le> i \<and> i \<le> ihi \<longrightarrow> jhi < max jlo i) \<longrightarrow>
      coeff E fresh arg s =
        Inl (Error_all ''Incorrect args for pair coefficients'',
             if allocated s then s else allocate E fresh s))"
proof (intro conjI impI)
  assume "length arg < 5 \<or> 6 < length arg"
  then show "coeff E fresh arg s = Inl (Error_all ''Incorrect args for pair coefficients'', s)"
    by (auto simp: coeff_def Let_def)
next
  assume h: "(length arg = 5 \<or> length arg = 6) \<and>
    bounds E (arg ! 0) 1 (ntypes E) = Inr (ilo, ihi) \<and>
    bounds E (arg ! 1) 1 (ntypes E) = Inr (jlo, jhi) \<and>
    numeric E (arg ! 2) = Inr a \<and> numeric E (arg ! 3) = Inr b \<and> numeric E (arg ! 4) = Inr c \<and>
    (length arg = 6 \<longrightarrow> numeric E (arg ! 5) = Inr rc) \<and>
    (\<forall>i. ilo \<le> i \<and> i \<le> ihi \<longrightarrow> jhi < max jlo i)"
  then have empty: "\<And>r cs. coeff_loop ilo ihi jlo jhi a b c r cs = cs"
    by (intro coeff_loop_empty) simp
  from h show "coeff E fresh arg s =
        Inl (Error_all ''Incorrect args for pair coefficients'',
             if allocated s then s else allocate E fresh s)"
    by (auto simp: coeff_def Let_def empty)
qed

theorem coeff_rejects_bad_arguments_witness:
  "coeff E0 zero_state [''1'', ''1'', ''1000'', ''2000''] cross_state =
     Inl (Error_all ''Incorrect args for pair coefficients'', cross_state) \<and>
   coeff E0 zero_state [''2'', ''1'', ''1000'', ''2000'', ''50''] cross_state =
     Inl (Error_all ''Incorrect args for pair coefficients'', cross_state)"
  using coeff_rejects_bad_arguments
          [where arg = "[''1'', ''1'', ''1000'', ''2000'']" and E = E0 and fresh = zero_state
             and s = cross_state]
        coeff_rejects_bad_arguments
          [where arg = "[''2'', ''1'', ''1000'', ''2000'', ''50'']" and E = E0
             and fresh = zero_state and s = cross_state and ilo = 2 and ihi = 2 and jlo = 1
             and jhi = 1 and a = 1000 and b = 2000 and c = 50]
  by (simp add: E0_def toy_bounds_def toy_numeric_def cross_state_def demo_fields)

section \<open>The plain pair evaluation\<close>

lemma init_one_derived_at:
  assumes "init_one E i j s = Inr (c, s')"
  shows "lj1 s' i j = 12 * aterm s' i j" "lj2 s' i j = 10 * bterm s' i j"
    "lj3 s' i j = 6 * cterm s' i j" "lj4 s' i j = aterm s' i j" "lj5 s' i j = bterm s' i j"
    "lj6 s' i j = cterm s' i j" "offset s' i j = 0" "c = cut s' i j"
    "lj1 s' j i = 12 * aterm s' i j" "lj2 s' j i = 10 * bterm s' i j"
    "lj3 s' j i = 6 * cterm s' i j" "lj4 s' j i = aterm s' i j" "lj5 s' j i = bterm s' i j"
    "lj6 s' j i = cterm s' i j" "offset s' j i = 0"
proof -
  from assms have s': "s' = tail_correction E i j (init_tables E i j s)"
    and c: "c = cut_mixed E s i j"
    by (simp_all add: init_one_eq split: if_splits)
  show "lj1 s' i j = 12 * aterm s' i j" "lj2 s' i j = 10 * bterm s' i j"
    "lj3 s' i j = 6 * cterm s' i j" "lj4 s' i j = aterm s' i j" "lj5 s' i j = bterm s' i j"
    "lj6 s' i j = cterm s' i j" "offset s' i j = 0" "c = cut s' i j"
    "lj1 s' j i = 12 * aterm s' i j" "lj2 s' j i = 10 * bterm s' i j"
    "lj3 s' j i = 6 * cterm s' i j" "lj4 s' j i = aterm s' i j" "lj5 s' j i = bterm s' i j"
    "lj6 s' j i = cterm s' i j" "offset s' j i = 0"
    unfolding s' c by (simp_all add: tail_frame tables_fields both_def)
qed

lemma final11_run: "init_one E0 1 1 demo_state = Inr (10, final11)"
  by (simp add: final11_def init_one_eq respa_check_def cut_mixed_def demo_fields upd2_apply)

lemma final22_run: "init_one E0 2 2 demo_state = Inr (12, final22)"
  by (simp add: final22_def init_one_eq respa_check_def cut_mixed_def demo_fields upd2_apply)

lemma final11_fields:
  "lj1 final11 1 1 = 12000" "lj2 final11 1 1 = 20000" "lj3 final11 1 1 = 300"
  "lj4 final11 1 1 = 1000" "lj5 final11 1 1 = 2000" "lj6 final11 1 1 = 50"
  "offset final11 1 1 = 0" "aterm final11 1 1 = 1000" "bterm final11 1 1 = 2000"
  "cterm final11 1 1 = 50" "cut final11 1 1 = 10"
  by (simp_all add: final11_def init_one_eq respa_check_def demo_fields tail_frame
      tables_fields both_def coef_a_def coef_b_def coef_c_def cut_mixed_def upd2_apply)

lemma final22_fields:
  "lj1 final22 2 2 = 0" "lj2 final22 2 2 = 0" "lj3 final22 2 2 = 6"
  "lj4 final22 2 2 = 0" "lj5 final22 2 2 = 0" "lj6 final22 2 2 = 1"
  "offset final22 2 2 = 0" "aterm final22 2 2 = 0" "bterm final22 2 2 = 0"
  "cterm final22 2 2 = 1" "cut final22 2 2 = 12"
  by (simp_all add: final22_def init_one_eq respa_check_def demo_fields tail_frame
      tables_fields both_def coef_a_def coef_b_def coef_c_def cut_mixed_def upd2_apply)

text \<open>
  C2, as amended. Let \<^verbatim>\<open>init_one(i, j)\<close> have returned \<open>cutoff\<close> and left the
  coefficients \<open>a, b, c\<close>, and let the engine have filled \<open>cutsq\<close> with a table whose entry
  for the pair of types is \<open>cutoff\<^sup>2\<close>. For a pair of atoms of these types at squared
  distance \<open>rsq \<ge> cutoff\<^sup>2\<close> the loop body of \<^verbatim>\<open>compute\<close> changes nothing: no
  force is added, no energy or virial is tallied (the test of line 116).
  \<^verbatim>\<open>single\<close> applies no cutoff test: there too it returns the energy
  \<open>factor * r6inv * (a r6inv - b r2inv\<^sup>2 + c)\<close> and the force
  \<open>factor * r2inv * r6inv * (12 a r6inv - 10 b r2inv\<^sup>2 + 6 c)\<close>.
\<close>

theorem pair_beyond_cutoff:
  assumes "init_one E i j s = Inr (cutoff, s')"
    and "cs i j = cutoff * cutoff" and "cutoff * cutoff \<le> rsq"
  shows "compute_pair E (s'\<lparr>cutsq := cs\<rparr>) eflag evflag ia ja i j factor delx dely delz rsq
           (L, \<sigma>) = (L, \<sigma>) \<and>
         single (s'\<lparr>cutsq := cs\<rparr>) i j rsq factor =
           (factor * ((1 / rsq) ^ 3 *
              (aterm s' i j * (1 / rsq) ^ 3 - bterm s' i j * (1 / rsq)\<^sup>2 + cterm s' i j)),
            factor * (1 / rsq) * (1 / rsq) ^ 3 *
              (12 * aterm s' i j * (1 / rsq) ^ 3 - 10 * bterm s' i j * (1 / rsq)\<^sup>2
               + 6 * cterm s' i j))"
proof
  show "compute_pair E (s'\<lparr>cutsq := cs\<rparr>) eflag evflag ia ja i j factor delx dely delz rsq
           (L, \<sigma>) = (L, \<sigma>)"
    using assms(2,3) by (simp add: compute_pair_def)
  note d = init_one_derived_at [OF assms(1)]
  show "single (s'\<lparr>cutsq := cs\<rparr>) i j rsq factor =
           (factor * ((1 / rsq) ^ 3 *
              (aterm s' i j * (1 / rsq) ^ 3 - bterm s' i j * (1 / rsq)\<^sup>2 + cterm s' i j)),
            factor * (1 / rsq) * (1 / rsq) ^ 3 *
              (12 * aterm s' i j * (1 / rsq) ^ 3 - 10 * bterm s' i j * (1 / rsq)\<^sup>2
               + 6 * cterm s' i j))"
    by (simp add: single_def Let_def d(1-7) power2_eq_square power3_eq_cube)
qed

theorem pair_beyond_cutoff_witness:
  "init_one E0 1 1 demo_state = Inr (10, final11) \<and> (10::real) * 10 \<le> 100 \<and>
   compute_pair E0 (final11\<lparr>cutsq := \<lambda>_ _. 100\<rparr>) 1 1 0 1 1 1 1 6 8 0 100
     (zero_locals, zero_sim) = (zero_locals, zero_sim) \<and>
   single (final11\<lparr>cutsq := \<lambda>_ _. 100\<rparr>) 1 1 100 1 =
     (49801 / 1000000000, 298012 / 100000000000)"
  using pair_beyond_cutoff
          [OF final11_run, where cs = "\<lambda>_ _. 100" and rsq = 100 and eflag = 1 and evflag = 1
             and ia = 0 and ja = 1 and factor = 1 and delx = 6 and dely = 8 and delz = 0
             and L = zero_locals and \<sigma> = zero_sim]
  by (simp add: final11_run final11_fields power2_eq_square power3_eq_cube)

text \<open>
  C2 as stated fails for \<^verbatim>\<open>single\<close>. The pair \<open>(2, 2)\<close> of the demonstration
  table (\<open>a = 0, b = 0, c = 1\<close>) has the cutoff 12; at \<open>rsq = 256\<close>, beyond \<open>cutoff\<^sup>2 = 144\<close>,
  \<^verbatim>\<open>single\<close> with factor 1 returns the energy \<open>2\<^sup>-\<^sup>2\<^sup>4\<close> and the force
  \<open>6 * 2\<^sup>-\<^sup>3\<^sup>2\<close>, neither of them zero.
\<close>

theorem single_beyond_cutoff_nonzero:
  "init_one E0 2 2 demo_state = Inr (12, final22) \<and> (12::real) * 12 \<le> 256 \<and>
   single (final22\<lparr>cutsq := \<lambda>_ _. 144\<rparr>) 2 2 256 1 = (1 / 16777216, 6 / 4294967296) \<and>
   fst (single (final22\<lparr>cutsq := \<lambda>_ _. 144\<rparr>) 2 2 256 1) \<noteq> 0 \<and>
   snd (single (final22\<lparr>cutsq := \<lambda>_ _. 144\<rparr>) 2 2 256 1) \<noteq> 0"
  by (simp add: final22_run single_def Let_def final22_fields)

text \<open>
  C1. Let \<^verbatim>\<open>init_one(i, j)\<close> have returned \<open>cutoff\<close> and left the coefficients
  \<open>a, b, c\<close> in \<open>aterm\<close>, \<open>bterm\<close>, \<open>cterm\<close>, and let \<open>cutsq\<close> hold \<open>cutoff\<^sup>2\<close> for the pair.
  For \<open>0 < rsq < cutoff\<^sup>2\<close> the force magnitude \<open>fpair\<close> of the loop body of
  \<^verbatim>\<open>compute\<close> and the \<open>fforce\<close> of \<^verbatim>\<open>single\<close> are
  \<open>factor * r2inv * r6inv * (12 a r6inv - 10 b r2inv\<^sup>2 + 6 c)\<close> with \<open>r2inv = 1 / rsq\<close> and
  \<open>r6inv = r2inv\<^sup>3\<close>. For \<open>a = 1000, b = 2000, c = 50\<close> and \<open>rsq = 25\<close> this is
  \<open>factor * 0.04 * 0.000064 * (12000 * 0.000064 - 20000 * 0.0016 + 300)\<close>.
\<close>

theorem force_magnitude_formula:
  assumes "init_one E i j s = Inr (cutoff, s')"
    and "cs i j = cutoff * cutoff" and "0 < rsq" and "rsq < cutoff * cutoff"
  shows "fpair (fst (compute_pair E (s'\<lparr>cutsq := cs\<rparr>) eflag evflag ia ja i j factor
                       delx dely delz rsq (L, \<sigma>))) =
           factor * (1 / rsq) * (1 / rsq) ^ 3 *
             (12 * aterm s' i j * (1 / rsq) ^ 3 - 10 * bterm s' i j * (1 / rsq)\<^sup>2
              + 6 * cterm s' i j) \<and>
         snd (single s' i j rsq factor) =
           factor * (1 / rsq) * (1 / rsq) ^ 3 *
             (12 * aterm s' i j * (1 / rsq) ^ 3 - 10 * bterm s' i j * (1 / rsq)\<^sup>2
              + 6 * cterm s' i j) \<and>
         snd (single final11 1 1 25 factor) =
           factor * 0.04 * 0.000064 * (12000 * 0.000064 - 20000 * 0.0016 + 300)"
proof (intro conjI)
  note d = init_one_derived_at [OF assms(1)]
  show "fpair (fst (compute_pair E (s'\<lparr>cutsq := cs\<rparr>) eflag evflag ia ja i j factor
                       delx dely delz rsq (L, \<sigma>))) =
           factor * (1 / rsq) * (1 / rsq) ^ 3 *
             (12 * aterm s' i j * (1 / rsq) ^ 3 - 10 * bterm s' i j * (1 / rsq)\<^sup>2
              + 6 * cterm s' i j)"
    using assms(2,4)
    by (simp add: compute_pair_def Let_def d(1-3) power2_eq_square power3_eq_cube)
  show "snd (single s' i j rsq factor) =
           factor * (1 / rsq) * (1 / rsq) ^ 3 *
             (12 * aterm s' i j * (1 / rsq) ^ 3 - 10 * bterm s' i j * (1 / rsq)\<^sup>2
              + 6 * cterm s' i j)"
    by (simp add: single_def Let_def d(1-3) power2_eq_square power3_eq_cube)
  show "snd (single final11 1 1 25 factor) =
           factor * 0.04 * 0.000064 * (12000 * 0.000064 - 20000 * 0.0016 + 300)"
    by (simp add: single_def Let_def final11_fields)
qed

theorem force_magnitude_formula_witness:
  "init_one E0 1 1 demo_state = Inr (10, final11) \<and> (0::real) < 25 \<and> (25::real) < 10 * 10 \<and>
   aterm final11 1 1 = 1000 \<and> bterm final11 1 1 = 2000 \<and> cterm final11 1 1 = 50 \<and>
   fpair (fst (compute_pair E0 (final11\<lparr>cutsq := \<lambda>_ _. 100\<rparr>) 0 0 1 2 1 1 (1 / 2) 3 4 0 25
                 (zero_locals, zero_sim))) =
     (1 / 2) * 0.04 * 0.000064 * (12000 * 0.000064 - 20000 * 0.0016 + 300)"
  using force_magnitude_formula [OF final11_run, of "\<lambda>_ _. 100" 25 0 0 1 2 "1 / 2" 3 4 0
          zero_locals zero_sim]
  by (simp add: final11_run final11_fields)

section \<open>The shell routines\<close>

lemma apply_fpair_zero: "apply_fpair E i j delx dely delz 0 \<sigma> = \<sigma>"
  by (simp add: apply_fpair_def Let_def split: prod.splits)

lemma apply_fpair_add:
  "apply_fpair E i j delx dely delz m2 (apply_fpair E i j delx dely delz m1 \<sigma>) =
     apply_fpair E i j delx dely delz (m1 + m2) \<sigma>"
  by (cases "i = j")
     (auto simp add: apply_fpair_def Let_def fun_eq_iff algebra_simps split: prod.splits
        intro!: arg_cong [where f = "\<lambda>f. \<sigma>\<lparr>atom_f := f\<rparr>"])

lemma apply_fpair_tallies: "tallies (apply_fpair E i j delx dely delz m \<sigma>) = tallies \<sigma>"
  by (simp add: apply_fpair_def Let_def)

lemma inner_pair_snd:
  "snd (inner_pair E s cr i j itype jtype factor delx dely delz rsq (L, \<sigma>)) =
     apply_fpair E i j delx dely delz (inner_mag s cr itype jtype factor rsq) \<sigma>"
proof (cases cr)
  case (fields c0 c1 c2 c3)
  show ?thesis
    unfolding inner_pair_def inner_mag_def single_def Let_def fields
    by (cases "rsq < c1 * c1"; cases "c0 * c0 < rsq";
        simp only: prod.case snd_conv apply_fpair_zero if_True if_False simp_thms)
qed

lemma middle_pair_snd:
  "snd (middle_pair E s cr i j itype jtype factor delx dely delz rsq (L, \<sigma>)) =
     apply_fpair E i j delx dely delz (middle_mag s cr itype jtype factor rsq) \<sigma>"
proof (cases cr)
  case (fields c0 c1 c2 c3)
  show ?thesis
    unfolding middle_pair_def middle_mag_def single_def Let_def fields
    by (cases "rsq < c3 * c3 \<and> c0 * c0 < rsq"; cases "rsq < c1 * c1"; cases "c2 * c2 < rsq";
        simp only: prod.case snd_conv apply_fpair_zero if_True if_False simp_thms)
qed

lemma outer_force_snd:
  "snd (outer_force E s cr i j itype jtype factor delx dely delz rsq (L, \<sigma>)) =
     apply_fpair E i j delx dely delz (outer_mag s cr itype jtype factor rsq) \<sigma>"
proof (cases cr)
  case (fields c0 c1 c2 c3)
  show ?thesis
    unfolding outer_force_def outer_mag_def single_def Let_def fields
    by (cases "c2 * c2 < rsq"; cases "rsq < c3 * c3";
        simp only: prod.case snd_conv apply_fpair_zero if_True if_False simp_thms)
qed

lemma outer_pair_atom_f:
  "atom_f (snd (outer_pair E s cr eflag vflag evflag i j itype jtype factor delx dely delz rsq
                  (L, \<sigma>))) =
     (if rsq < cutsq s itype jtype
      then atom_f (apply_fpair E i j delx dely delz (outer_mag s cr itype jtype factor rsq) \<sigma>)
      else atom_f \<sigma>)"
  using outer_force_snd [of E s cr i j itype jtype factor delx dely delz rsq L \<sigma>]
  by (cases "outer_force E s cr i j itype jtype factor delx dely delz rsq (L, \<sigma>)")
     (simp add: outer_pair_def Let_def)


lemma switch_complement:
  "R * (1 + t * t * (2 * t - 3)) + R * (t * t * (3 - 2 * t)) = (R::real)"
  by (simp add: algebra_simps)

lemma shells_sum:
  assumes "0 \<le> c0" "c0 < c1" "c1 \<le> c2" "c2 < c3"
  shows "inner_mag s (c0, c1, c2, c3) itype jtype factor rsq
         + middle_mag s (c0, c1, c2, c3) itype jtype factor rsq
         + outer_mag s (c0, c1, c2, c3) itype jtype factor rsq
         = snd (single s itype jtype rsq factor)"
proof -
  have sq01: "c0 * c0 < c1 * c1"
    using assms by (intro mult_strict_mono') auto
  have sq12: "c1 * c1 \<le> c2 * c2"
    using assms by (intro mult_mono) auto
  have sq23: "c2 * c2 < c3 * c3"
    using assms by (intro mult_strict_mono') auto
  consider (a) "rsq \<le> c0 * c0"
    | (b) "c0 * c0 < rsq" "rsq < c1 * c1"
    | (c) "c1 * c1 \<le> rsq" "rsq \<le> c2 * c2"
    | (d) "c2 * c2 < rsq" "rsq < c3 * c3"
    | (e) "c3 * c3 \<le> rsq"
    by linarith
  then show ?thesis
  proof cases
    case a
    with sq01 sq12 sq23 have "rsq < c1 * c1" "\<not> c0 * c0 < rsq" "\<not> c2 * c2 < rsq"
      by linarith+
    then show ?thesis
      by (simp add: inner_mag_def middle_mag_def outer_mag_def)
  next
    case b
    with sq01 sq12 sq23 have "rsq < c3 * c3" "\<not> c2 * c2 < rsq"
      by linarith+
    with b show ?thesis
      by (simp add: inner_mag_def middle_mag_def outer_mag_def algebra_simps)
  next
    case c
    with sq01 sq12 sq23 have "\<not> rsq < c1 * c1" "c0 * c0 < rsq" "rsq < c3 * c3" "\<not> c2 * c2 < rsq"
      by linarith+
    then show ?thesis
      by (simp add: inner_mag_def middle_mag_def outer_mag_def)
  next
    case d
    with sq01 sq12 sq23 have "\<not> rsq < c1 * c1" "c0 * c0 < rsq"
      by linarith+
    with d have "inner_mag s (c0, c1, c2, c3) itype jtype factor rsq = 0"
      and "middle_mag s (c0, c1, c2, c3) itype jtype factor rsq =
             snd (single s itype jtype rsq factor) *
               (1 + (sqrt rsq - c2) / (c3 - c2) * ((sqrt rsq - c2) / (c3 - c2)) *
                    (2 * ((sqrt rsq - c2) / (c3 - c2)) - 3))"
      and "outer_mag s (c0, c1, c2, c3) itype jtype factor rsq =
             snd (single s itype jtype rsq factor) *
               ((sqrt rsq - c2) / (c3 - c2) * ((sqrt rsq - c2) / (c3 - c2)) *
                (3 - 2 * ((sqrt rsq - c2) / (c3 - c2))))"
      by (simp_all only: inner_mag_def middle_mag_def outer_mag_def prod.case if_True if_False
          simp_thms)
    then show ?thesis
      by (simp only: switch_complement add_0)
  next
    case e
    with sq01 sq12 sq23 have "\<not> rsq < c1 * c1" "\<not> rsq < c3 * c3" "c2 * c2 < rsq"
      by linarith+
    then show ?thesis
      by (simp add: inner_mag_def middle_mag_def outer_mag_def)
  qed
qed

lemma shell_squares:
  fixes c0 c1 c2 c3 :: real
  assumes "0 \<le> c0" "c0 < c1" "c1 \<le> c2" "c2 < c3"
  shows "c0 * c0 < c1 * c1" "c1 * c1 \<le> c2 * c2" "c2 * c2 < c3 * c3"
proof -
  show "c0 * c0 < c1 * c1"
    using assms by (intro mult_strict_mono') auto
  show "c1 * c1 \<le> c2 * c2"
    using assms by (intro mult_mono) auto
  show "c2 * c2 < c3 * c3"
    using assms by (intro mult_strict_mono') auto
qed

lemma shell_boundaries:
  assumes "0 \<le> c0" "c0 < c1" "c1 \<le> c2" "c2 < c3"
  shows "inner_mag s (c0, c1, c2, c3) itype jtype factor (c0 * c0) =
           snd (single s itype jtype (c0 * c0) factor)"
    and "middle_mag s (c0, c1, c2, c3) itype jtype factor (c0 * c0) = 0"
    and "inner_mag s (c0, c1, c2, c3) itype jtype factor (c1 * c1) = 0"
    and "middle_mag s (c0, c1, c2, c3) itype jtype factor (c1 * c1) =
           snd (single s itype jtype (c1 * c1) factor)"
    and "middle_mag s (c0, c1, c2, c3) itype jtype factor (c2 * c2) =
           snd (single s itype jtype (c2 * c2) factor)"
    and "outer_mag s (c0, c1, c2, c3) itype jtype factor (c2 * c2) = 0"
    and "middle_mag s (c0, c1, c2, c3) itype jtype factor (c3 * c3) = 0"
    and "outer_mag s (c0, c1, c2, c3) itype jtype factor (c3 * c3) =
           snd (single s itype jtype (c3 * c3) factor)"
  using shell_squares [OF assms]
  by (simp_all add: inner_mag_def middle_mag_def outer_mag_def)

text \<open>
  C4, as amended. Let the shell radii be ordered, \<open>0 \<le> c0 < c1 \<le> c2 < c3\<close>. At a
  squared distance equal to a squared radius the two routines whose windows meet there do
  not compute the same magnitude: one adds the whole unsmoothed magnitude and the other
  adds nothing (inner and not middle at \<open>c0\<^sup>2\<close>, middle and not inner at \<open>c1\<^sup>2\<close>, middle and
  not outer at \<open>c2\<^sup>2\<close>, outer and not middle at \<open>c3\<^sup>2\<close>). For every squared distance below
  \<open>cutsq\<close>, the boundaries included, the three routines together change the force array
  exactly as the unsmoothed magnitude does: the switching factors add up to one.
\<close>

theorem respa_shells_sum_to_full_force:
  assumes "0 \<le> c0" "c0 < c1" "c1 \<le> c2" "c2 < c3"
  shows "(rsq < cutsq s itype jtype \<longrightarrow>
          atom_f (snd (outer_pair E s (c0, c1, c2, c3) eflag vflag evflag i j itype jtype factor
                        delx dely delz rsq
                   (middle_pair E s (c0, c1, c2, c3) i j itype jtype factor delx dely delz rsq
                      (inner_pair E s (c0, c1, c2, c3) i j itype jtype factor delx dely delz rsq
                         (L, \<sigma>))))) =
          atom_f (apply_fpair E i j delx dely delz (snd (single s itype jtype rsq factor)) \<sigma>)) \<and>
         snd (inner_pair E s (c0, c1, c2, c3) i j itype jtype factor delx dely delz (c0 * c0)
                (L, \<sigma>)) =
           apply_fpair E i j delx dely delz (snd (single s itype jtype (c0 * c0) factor)) \<sigma> \<and>
         snd (middle_pair E s (c0, c1, c2, c3) i j itype jtype factor delx dely delz (c0 * c0)
                (L, \<sigma>)) = \<sigma> \<and>
         snd (inner_pair E s (c0, c1, c2, c3) i j itype jtype factor delx dely delz (c1 * c1)
                (L, \<sigma>)) = \<sigma> \<and>
         snd (middle_pair E s (c0, c1, c2, c3) i j itype jtype factor delx dely delz (c1 * c1)
                (L, \<sigma>)) =
           apply_fpair E i j delx dely delz (snd (single s itype jtype (c1 * c1) factor)) \<sigma> \<and>
         snd (middle_pair E s (c0, c1, c2, c3) i j itype jtype factor delx dely delz (c2 * c2)
                (L, \<sigma>)) =
           apply_fpair E i j delx dely delz (snd (single s itype jtype (c2 * c2) factor)) \<sigma> \<and>
         atom_f (snd (outer_pair E s (c0, c1, c2, c3) eflag vflag evflag i j itype jtype factor
                        delx dely delz (c2 * c2) (L, \<sigma>))) = atom_f \<sigma> \<and>
         snd (middle_pair E s (c0, c1, c2, c3) i j itype jtype factor delx dely delz (c3 * c3)
                (L, \<sigma>)) = \<sigma> \<and>
         (c3 * c3 < cutsq s itype jtype \<longrightarrow>
          atom_f (snd (outer_pair E s (c0, c1, c2, c3) eflag vflag evflag i j itype jtype factor
                        delx dely delz (c3 * c3) (L, \<sigma>))) =
          atom_f (apply_fpair E i j delx dely delz
                    (snd (single s itype jtype (c3 * c3) factor)) \<sigma>))"
proof -
  let ?cr = "(c0, c1, c2, c3)"
  have total: "atom_f (snd (outer_pair E s ?cr eflag vflag evflag i j itype jtype factor
                        delx dely delz rsq
                   (middle_pair E s ?cr i j itype jtype factor delx dely delz rsq
                      (inner_pair E s ?cr i j itype jtype factor delx dely delz rsq
                         (L, \<sigma>))))) =
          atom_f (apply_fpair E i j delx dely delz (snd (single s itype jtype rsq factor)) \<sigma>)"
    if within: "rsq < cutsq s itype jtype"
  proof -
    obtain L1 \<sigma>1 where p1:
      "inner_pair E s ?cr i j itype jtype factor delx dely delz rsq (L, \<sigma>) = (L1, \<sigma>1)"
      by (cases "inner_pair E s ?cr i j itype jtype factor delx dely delz rsq (L, \<sigma>)")
    obtain L2 \<sigma>2 where p2:
      "middle_pair E s ?cr i j itype jtype factor delx dely delz rsq (L1, \<sigma>1) = (L2, \<sigma>2)"
      by (cases "middle_pair E s ?cr i j itype jtype factor delx dely delz rsq (L1, \<sigma>1)")
    have s1: "\<sigma>1 = apply_fpair E i j delx dely delz (inner_mag s ?cr itype jtype factor rsq) \<sigma>"
      using inner_pair_snd [of E s ?cr i j itype jtype factor delx dely delz rsq L \<sigma>] p1
      by simp
    have s2: "\<sigma>2 = apply_fpair E i j delx dely delz (middle_mag s ?cr itype jtype factor rsq) \<sigma>1"
      using middle_pair_snd [of E s ?cr i j itype jtype factor delx dely delz rsq L1 \<sigma>1] p2
      by simp
    have "atom_f (snd (outer_pair E s ?cr eflag vflag evflag i j itype jtype factor
                          delx dely delz rsq (L2, \<sigma>2))) =
          atom_f (apply_fpair E i j delx dely delz (outer_mag s ?cr itype jtype factor rsq) \<sigma>2)"
      using within by (simp add: outer_pair_atom_f)
    also have "apply_fpair E i j delx dely delz (outer_mag s ?cr itype jtype factor rsq) \<sigma>2 =
        apply_fpair E i j delx dely delz
          (inner_mag s ?cr itype jtype factor rsq + middle_mag s ?cr itype jtype factor rsq
           + outer_mag s ?cr itype jtype factor rsq) \<sigma>"
      unfolding s2 s1 by (simp only: apply_fpair_add)
    finally show ?thesis
      unfolding p1 p2 by (simp only: shells_sum [OF assms])
  qed
  note b = shell_boundaries [OF assms, of s itype jtype factor]
  show ?thesis
    using total
    by (simp add: inner_pair_snd middle_pair_snd outer_pair_atom_f b apply_fpair_zero)
qed

theorem respa_shells_sum_to_full_force_witness:
  "(0::real) \<le> 1 \<and> (1::real) < 2 \<and> (2::real) \<le> 3 \<and> (3::real) < 4 \<and>
   atom_f (snd (outer_pair E0 (final22\<lparr>cutsq := \<lambda>_ _. 144\<rparr>) (1, 2, 3, 4) 0 0 0 0 1 2 2 1
                   1 0 0 1
              (middle_pair E0 (final22\<lparr>cutsq := \<lambda>_ _. 144\<rparr>) (1, 2, 3, 4) 0 1 2 2 1 1 0 0 1
                 (inner_pair E0 (final22\<lparr>cutsq := \<lambda>_ _. 144\<rparr>) (1, 2, 3, 4) 0 1 2 2 1 1 0 0 1
                    (zero_locals, zero_sim))))) 0 = (6, 0, 0)"
  using respa_shells_sum_to_full_force
          [of 1 2 3 4 1 "final22\<lparr>cutsq := \<lambda>_ _. 144\<rparr>" 2 2 E0 0 0 0 0 1 1 1 0 0
             zero_locals zero_sim]
  by (simp add: single_def Let_def final22_fields apply_fpair_def E0_def zero_sim_def)

text \<open>
  C4 as stated fails. With radii 1, 2, 3, 4 and the pair \<open>(2, 2)\<close> of the demonstration
  table at \<open>rsq = 1\<close>, the square of the first radius,
  \<^verbatim>\<open>compute_inner\<close> adds the magnitude 6 to the force on atom 0 and
  \<^verbatim>\<open>compute_middle\<close> adds nothing.
\<close>

theorem shell_boundary_disagreement:
  "atom_f (snd (inner_pair E0 (final22\<lparr>cutsq := \<lambda>_ _. 144\<rparr>) (1, 2, 3, 4) 0 1 2 2 1 1 0 0 1
                  (zero_locals, zero_sim))) 0 = (6, 0, 0) \<and>
   atom_f (snd (middle_pair E0 (final22\<lparr>cutsq := \<lambda>_ _. 144\<rparr>) (1, 2, 3, 4) 0 1 2 2 1 1 0 0 1
                  (zero_locals, zero_sim))) 0 = (0, 0, 0)"
  by (simp add: inner_pair_snd middle_pair_snd inner_mag_def middle_mag_def single_def Let_def
      final22_fields apply_fpair_def E0_def zero_sim_def)

section \<open>born\_matrix\<close>

lemma pair_energy_deriv:
  assumes "r \<noteq> 0"
  shows "(pair_energy a b c has_real_derivative pair_energy_d1 a b c r) (at r)"
  unfolding pair_energy_def [abs_def] pair_energy_d1_def
  using assms
  by (auto intro!: derivative_eq_intros simp: field_simps)

lemma pair_energy_deriv2:
  assumes "r \<noteq> 0"
  shows "(pair_energy_d1 a b c has_real_derivative pair_energy_d2 a b c r) (at r)"
  unfolding pair_energy_d1_def [abs_def] pair_energy_d2_def
  using assms
  apply (auto intro!: derivative_eq_intros simp: field_simps)
  apply algebra
  done

text \<open>The energy and the force of \<^verbatim>\<open>single\<close> are those of \<open>U\<close>: \<open>fforce * r = - U'(r)\<close>.\<close>

lemma single_energy:
  assumes "init_one E i j s = Inr (cutoff, s')" and "0 < r"
  shows "fst (single s' i j (r * r) factor) =
           factor * pair_energy (aterm s' i j) (bterm s' i j) (cterm s' i j) r"
  using assms(2)
  by (simp add: single_def Let_def init_one_derived_at [OF assms(1)] pair_energy_def
      field_simps power_numeral_reduce)

lemma single_force:
  assumes "init_one E i j s = Inr (cutoff, s')" and "0 < r"
  shows "snd (single s' i j (r * r) factor) * r =
           - factor * pair_energy_d1 (aterm s' i j) (bterm s' i j) (cterm s' i j) r"
  using assms(2)
  by (simp add: single_def Let_def init_one_derived_at [OF assms(1)] pair_energy_d1_def
      field_simps power_numeral_reduce)

text \<open>
  What \<^verbatim>\<open>born_matrix\<close> evaluates on a finalized pair at distance \<open>r\<close>: the
  expressions of the 12-6 Lennard-Jones style with \<open>lj1 = 12 a\<close> and \<open>lj2 = 10 b\<close> in place
  of its constants. Against \<open>U'\<close> and \<open>U''\<close> the \<open>b\<close> terms have other powers and factors
  and the \<open>c\<close> terms are absent.
\<close>

lemma born_matrix_closed_form:
  assumes "init_one E i j s = Inr (cutoff, s')" and "0 < r"
  shows "born_matrix s' i j (r * r) factor =
           (factor * (10 * bterm s' i j / r ^ 7 - 12 * aterm s' i j / r ^ 13),
            factor * (156 * aterm s' i j / r ^ 14 - 70 * bterm s' i j / r ^ 8))"
proof -
  have rinv: "sqrt (1 / (r * r)) = 1 / r"
    using assms(2) by (simp add: real_sqrt_divide)
  show ?thesis
    using assms(2)
    by (simp add: born_matrix_def Let_def rinv init_one_derived_at [OF assms(1)]
        field_simps power_numeral_reduce)
qed

text \<open>
  C7. For the pair \<open>(2, 2)\<close> of the demonstration table (\<open>a = 0, b = 0, c = 1\<close>) at
  \<open>rsq = 1\<close> with factor 1, \<^verbatim>\<open>born_matrix\<close> returns \<open>(0, 0)\<close>, while
  \<open>U(r) = r\<^sup>-\<^sup>6\<close> has the first derivative \<open>- 6\<close> and the second derivative 42 at \<open>r = 1\<close>;
  \<^verbatim>\<open>single\<close> returns the force 6 there, which is \<open>- U'(1)\<close>.
\<close>

theorem born_matrix_at_unit_distance:
  "born_matrix final22 2 2 1 1 = (0, 0) \<and>
   snd (single final22 2 2 1 1) = 6 \<and>
   (pair_energy 0 0 1 has_real_derivative - 6) (at 1) \<and>
   (pair_energy_d1 0 0 1 has_real_derivative 42) (at 1)"
  using pair_energy_deriv [of 1 0 0 1] pair_energy_deriv2 [of 1 0 0 1]
  by (simp add: born_matrix_def single_def Let_def final22_fields pair_energy_d1_def
      pair_energy_d2_def)

section \<open>compute\_outer and the virial\<close>

lemma outer_force_skip:
  "\<not> c2 * c2 < rsq \<Longrightarrow>
   outer_force E s (c0, c1, c2, c3) i j itype jtype factor delx dely delz rsq (L, \<sigma>) = (L, \<sigma>)"
  by (simp add: outer_force_def Let_def)

lemma outer_force_locals:
  assumes "c2 * c2 < rsq"
  shows "factor * forcelj (fst (outer_force E s (c0, c1, c2, c3) i j itype jtype factor
                                 delx dely delz rsq (L, \<sigma>)))
                * r2inv (fst (outer_force E s (c0, c1, c2, c3) i j itype jtype factor
                                delx dely delz rsq (L, \<sigma>))) =
           snd (single s itype jtype rsq factor)"
    and "r2inv (fst (outer_force E s (c0, c1, c2, c3) i j itype jtype factor
                       delx dely delz rsq (L, \<sigma>))) = 1 / rsq"
    and "\<not> rsq < c3 * c3 \<Longrightarrow>
         fpair (fst (outer_force E s (c0, c1, c2, c3) i j itype jtype factor
                       delx dely delz rsq (L, \<sigma>))) = snd (single s itype jtype rsq factor)"
  using assms
  by (cases "rsq < c3 * c3"; simp add: outer_force_def single_def Let_def)+

lemma outer_force_tallies:
  "tallies (snd (outer_force E s cr i j itype jtype factor delx dely delz rsq (L, \<sigma>))) =
     tallies \<sigma>"
  by (simp add: outer_force_snd apply_fpair_tallies)

lemma outer_energy_locals:
  "forcelj (outer_energy s eflag itype jtype factor rsq L) = forcelj L"
  "fpair (outer_energy s eflag itype jtype factor rsq L) = fpair L"
  "r2inv L = 1 / rsq \<Longrightarrow> r2inv (outer_energy s eflag itype jtype factor rsq L) = 1 / rsq"
  by (simp_all add: outer_energy_def Let_def)

lemma outer_virial_fpair:
  assumes "vflag \<noteq> 0"
  shows "rsq \<le> c2 * c2 \<Longrightarrow>
           fpair (outer_virial s (c0, c1, c2, c3) vflag itype jtype factor rsq L) =
             snd (single s itype jtype rsq factor)"
    and "c2 * c2 < rsq \<Longrightarrow> rsq < c3 * c3 \<Longrightarrow>
           fpair (outer_virial s (c0, c1, c2, c3) vflag itype jtype factor rsq L) =
             factor * forcelj L * r2inv L"
    and "c2 * c2 < rsq \<Longrightarrow> \<not> rsq < c3 * c3 \<Longrightarrow>
           outer_virial s (c0, c1, c2, c3) vflag itype jtype factor rsq L = L"
  using assms by (simp_all add: outer_virial_def single_def Let_def)

lemma outer_pair_within:
  assumes "rsq < cutsq s itype jtype"
  shows "fst (outer_pair E s cr eflag vflag evflag i j itype jtype factor delx dely delz rsq
                (L, \<sigma>)) =
           outer_virial s cr vflag itype jtype factor rsq
             (outer_energy s eflag itype jtype factor rsq
                (fst (outer_force E s cr i j itype jtype factor delx dely delz rsq (L, \<sigma>))))"
    and "tallies (snd (outer_pair E s cr eflag vflag evflag i j itype jtype factor
                         delx dely delz rsq (L, \<sigma>))) =
           (if evflag \<noteq> 0
            then tallies \<sigma> @
                 [Ev_tally i j (nlocal E) (newton_pair E)
                    (evdwl (fst (outer_pair E s cr eflag vflag evflag i j itype jtype factor
                                   delx dely delz rsq (L, \<sigma>))))
                    0
                    (fpair (fst (outer_pair E s cr eflag vflag evflag i j itype jtype factor
                                   delx dely delz rsq (L, \<sigma>))))
                    delx dely delz]
            else tallies \<sigma>)"
  using assms outer_force_tallies [of E s cr i j itype jtype factor delx dely delz rsq L \<sigma>]
  by (cases "outer_force E s cr i j itype jtype factor delx dely delz rsq (L, \<sigma>)";
      simp add: outer_pair_def Let_def)+

lemma outer_fpair_raw:
  assumes "vflag \<noteq> 0" and "rsq < cutsq s itype jtype"
  shows "fpair (fst (outer_pair E s (c0, c1, c2, c3) eflag vflag evflag i j itype jtype factor
                       delx dely delz rsq (L, \<sigma>))) = snd (single s itype jtype rsq factor)"
proof -
  let ?cr = "(c0, c1, c2, c3)"
  let ?L1 = "fst (outer_force E s ?cr i j itype jtype factor delx dely delz rsq (L, \<sigma>))"
  let ?L2 = "outer_energy s eflag itype jtype factor rsq ?L1"
  consider (a) "rsq \<le> c2 * c2" | (b) "c2 * c2 < rsq" "rsq < c3 * c3"
    | (c) "c2 * c2 < rsq" "\<not> rsq < c3 * c3"
    by linarith
  then have "fpair (outer_virial s ?cr vflag itype jtype factor rsq ?L2) =
      snd (single s itype jtype rsq factor)"
  proof cases
    case a
    then show ?thesis
      by (rule outer_virial_fpair(1) [OF assms(1)])
  next
    case b
    have "fpair (outer_virial s ?cr vflag itype jtype factor rsq ?L2) =
        factor * forcelj ?L2 * r2inv ?L2"
      by (rule outer_virial_fpair(2) [OF assms(1) b])
    also have "\<dots> = factor * forcelj ?L1 * r2inv ?L1"
      by (simp add: outer_energy_locals outer_force_locals(2) [OF b(1)])
    also have "\<dots> = snd (single s itype jtype rsq factor)"
      by (rule outer_force_locals(1) [OF b(1)])
    finally show ?thesis .
  next
    case c
    then show ?thesis
      by (simp add: outer_virial_fpair(3) [OF assms(1)] outer_energy_locals
          outer_force_locals(3))
  qed
  then show ?thesis
    by (simp add: outer_pair_within(1) [OF assms(2)])
qed

text \<open>
  C6, as amended. In \<^verbatim>\<open>compute_outer\<close> with the virial flag set, for every pair
  within the cutoff the \<open>fpair\<close> left for the tally is the unsmoothed magnitude
  \<open>factor_lj * forcelj * r2inv\<close>: computed afresh for \<open>rsq \<le> c2\<^sup>2\<close>; rebuilt from the
  \<open>forcelj\<close> and \<open>r2inv\<close> of the force branch, without the switching factor, for
  \<open>c2\<^sup>2 < rsq < c3\<^sup>2\<close>; and otherwise the value of the force branch, which applies no
  switching there. With \<open>evflag\<close> set this is the magnitude passed to \<^verbatim>\<open>ev_tally\<close>.
  The switched magnitude is what the force branch adds to the force array.
\<close>

theorem outer_virial_force_is_unsmoothed:
  assumes "vflag \<noteq> 0" and "rsq < cutsq s itype jtype"
  shows "fpair (fst (outer_pair E s (c0, c1, c2, c3) eflag vflag evflag i j itype jtype factor
                       delx dely delz rsq (L, \<sigma>))) = snd (single s itype jtype rsq factor) \<and>
         (evflag \<noteq> 0 \<longrightarrow>
            tallies (snd (outer_pair E s (c0, c1, c2, c3) eflag vflag evflag i j itype jtype
                            factor delx dely delz rsq (L, \<sigma>))) =
              tallies \<sigma> @
                [Ev_tally i j (nlocal E) (newton_pair E)
                   (evdwl (fst (outer_pair E s (c0, c1, c2, c3) eflag vflag evflag i j itype
                                  jtype factor delx dely delz rsq (L, \<sigma>))))
                   0 (snd (single s itype jtype rsq factor)) delx dely delz]) \<and>
         (c2 * c2 < rsq \<and> rsq < c3 * c3 \<longrightarrow>
            atom_f (snd (outer_pair E s (c0, c1, c2, c3) eflag vflag evflag i j itype jtype
                           factor delx dely delz rsq (L, \<sigma>))) =
              atom_f (apply_fpair E i j delx dely delz
                        (snd (single s itype jtype rsq factor) *
                           ((sqrt rsq - c2) / (c3 - c2) * ((sqrt rsq - c2) / (c3 - c2)) *
                            (3 - 2 * ((sqrt rsq - c2) / (c3 - c2))))) \<sigma>))"
  using assms(2)
  by (simp add: outer_fpair_raw [OF assms] outer_pair_within(2) [OF assms(2)]
      outer_pair_atom_f outer_mag_def)

lemma outer_evdwl:
  "evdwl (fst (outer_force E s cr i j itype jtype factor delx dely delz rsq (L, \<sigma>))) = evdwl L"
  "evdwl (outer_energy s 0 itype jtype factor rsq L) = evdwl L"
  "evdwl (outer_virial s cr vflag itype jtype factor rsq L) = evdwl L"
  by (cases cr; simp add: outer_force_def outer_energy_def outer_virial_def Let_def
        split: prod.splits)+

lemma zero_sim_fields: "tallies zero_sim = []" "atom_f zero_sim = (\<lambda>_. (0, 0, 0))"
  by (simp_all add: zero_sim_def)

lemma E0_fields: "nlocal E0 = 2" "newton_pair E0 = 1"
  by (simp_all add: E0_def)

lemma final22_raw: "snd (single (final22\<lparr>cutsq := cs\<rparr>) 2 2 4 1) = 3 / 128"
  by (simp add: single_def Let_def final22_fields)

theorem outer_virial_force_is_unsmoothed_witness:
  "(1::int) \<noteq> 0 \<and> (4::real) < 144 \<and>
   tallies (snd (outer_pair E0 (final22\<lparr>cutsq := \<lambda>_ _. 144\<rparr>) (1 / 2, 3 / 4, 1, 4) 0 1 1
                   0 1 2 2 1 2 0 0 4 (zero_locals, zero_sim))) =
     [Ev_tally 0 1 2 1 0 0 (3 / 128) 2 0 0]"
  using outer_virial_force_is_unsmoothed
          [of 1 4 "final22\<lparr>cutsq := \<lambda>_ _. 144\<rparr>" 2 2 E0 "1 / 2" "3 / 4" 1 4 0 1 0 1 1 2 0 0
             zero_locals zero_sim]
  by (simp add: final22_raw E0_fields outer_pair_within(1) outer_evdwl zero_sim_def
      zero_locals_def)

text \<open>
  C6 as stated fails. With \<open>cut_respa[2] = 1\<close>, \<open>cut_respa[3] = 4\<close>, the pair \<open>(2, 2)\<close> of
  the demonstration table and two atoms at separation \<open>(2, 0, 0)\<close>, so \<open>rsq = 4\<close>, the
  unsmoothed magnitude is \<open>3/128\<close> and the switching factor \<open>7/27\<close>: the force on atom 0
  grows by \<open>2 * 7/1152 = 7/576\<close>, and the tally receives \<open>3/128\<close>.
\<close>

theorem outer_virial_not_smoothed:
  "tallies (snd (outer_pair E0 (final22\<lparr>cutsq := \<lambda>_ _. 144\<rparr>) (1 / 2, 3 / 4, 1, 4) 0 1 1
                   0 1 2 2 1 2 0 0 4 (zero_locals, zero_sim))) =
     [Ev_tally 0 1 2 1 0 0 (3 / 128) 2 0 0] \<and>
   atom_f (snd (outer_pair E0 (final22\<lparr>cutsq := \<lambda>_ _. 144\<rparr>) (1 / 2, 3 / 4, 1, 4) 0 1 1
                   0 1 2 2 1 2 0 0 4 (zero_locals, zero_sim))) 0 = (7 / 576, 0, 0)"
proof -
  have fp: "fpair (fst (outer_pair E0 (final22\<lparr>cutsq := \<lambda>_ _. 144\<rparr>) (1 / 2, 3 / 4, 1, 4)
                   0 1 1 0 1 2 2 1 2 0 0 4 (zero_locals, zero_sim))) = 3 / 128"
    by (simp add: outer_fpair_raw final22_raw)
  have ev: "evdwl (fst (outer_pair E0 (final22\<lparr>cutsq := \<lambda>_ _. 144\<rparr>) (1 / 2, 3 / 4, 1, 4)
                   0 1 1 0 1 2 2 1 2 0 0 4 (zero_locals, zero_sim))) = 0"
    by (simp add: outer_pair_within(1) outer_evdwl zero_locals_def)
  have "tallies (snd (outer_pair E0 (final22\<lparr>cutsq := \<lambda>_ _. 144\<rparr>) (1 / 2, 3 / 4, 1, 4) 0 1 1
                   0 1 2 2 1 2 0 0 4 (zero_locals, zero_sim))) =
     [Ev_tally 0 1 2 1 0 0 (3 / 128) 2 0 0]"
    by (simp add: outer_pair_within(2) fp ev E0_fields zero_sim_fields)
  moreover have "atom_f (snd (outer_pair E0 (final22\<lparr>cutsq := \<lambda>_ _. 144\<rparr>)
                   (1 / 2, 3 / 4, 1, 4) 0 1 1
                   0 1 2 2 1 2 0 0 4 (zero_locals, zero_sim))) 0 = (7 / 576, 0, 0)"
    by (simp add: outer_pair_atom_f outer_mag_def final22_raw apply_fpair_def E0_fields
        zero_sim_def)
  ultimately show ?thesis by simp
qed

section \<open>Restart files\<close>

lemma write_row:
  "fold (\<lambda>j fp. fp @ entry_items s i j) js fp = fp @ concat (map (entry_items s i) js)"
  by (induction js arbitrary: fp) simp_all

lemma write_rows:
  "fold (\<lambda>i. fold (\<lambda>j fp. fp @ entry_items s i j) (J i)) is fp =
     fp @ concat (map (\<lambda>i. concat (map (entry_items s i) (J i))) is)"
  by (induction "is" arbitrary: fp) (simp_all add: write_row)

lemma write_restart_eq:
  "write_restart E s fp =
     fp @ [Double_datum (cut_global s), Int_datum (offset_flag s), Int_datum (mix_flag s),
           Int_datum (tail_flag s)]
        @ concat (map (\<lambda>i. concat (map (entry_items s i) [i..ntypes E])) [1..ntypes E])"
proof -
  have body: "(\<lambda>j fp. let fp = fp @ [Int_datum (setflag s i j)]
                      in if setflag s i j \<noteq> 0
                         then fp @ [Double_datum (aterm s i j)] @ [Double_datum (bterm s i j)]
                                 @ [Double_datum (cterm s i j)] @ [Double_datum (cut s i j)]
                         else fp) =
              (\<lambda>j fp. fp @ entry_items s i j)" for i
    by (auto simp: fun_eq_iff Let_def entry_items_def)
  show ?thesis
    unfolding write_restart_def Let_def [of "write_restart_settings s fp"] body write_rows
    by (simp add: write_restart_settings_def)
qed

lemma read_entry_items:
  "read_entry i j (t, entry_items s i j @ rest) = Inr (restore_entry s i j t, rest)"
  by (cases "setflag s i j = 0")
     (simp_all add: read_entry_def entry_items_def restore_entry_def sfread_int_def
        sfread_double_def Let_def upd2_apply)

lemma read_row:
  "foldE (read_entry i) js (t, concat (map (entry_items s i) js) @ rest) =
     Inr (fold (restore_entry s i) js t, rest)"
  by (induction js arbitrary: t) (simp_all add: read_entry_items)

lemma read_rows:
  "foldE (\<lambda>i. foldE (read_entry i) (J i)) is
     (t, concat (map (\<lambda>i. concat (map (entry_items s i) (J i))) is) @ rest) =
     Inr (fold (\<lambda>i. fold (restore_entry s i) (J i)) is t, rest)"
  by (induction "is" arbitrary: t) (simp_all add: read_row)

lemma read_settings_items:
  "read_restart_settings
     (t, Double_datum g # Int_datum o1 # Int_datum m # Int_datum tf # rest) =
     Inr (t\<lparr>cut_global := g, offset_flag := o1, mix_flag := m, tail_flag := tf\<rparr>, rest)"
  by (simp add: read_restart_settings_def sfread_int_def sfread_double_def Let_def)

lemma read_restart_write_restart:
  "read_restart E fresh (s0, write_restart E s []) = Inr (restored E fresh s s0, [])"
proof -
  have "foldE (\<lambda>i. foldE (read_entry i) [i..ntypes E]) [1..ntypes E]
          (t, concat (map (\<lambda>i. concat (map (entry_items s i) [i..ntypes E])) [1..ntypes E])) =
        Inr (fold (\<lambda>i. fold (restore_entry s i) [i..ntypes E]) [1..ntypes E] t, [])" for t
    using read_rows [of "\<lambda>i. [i..ntypes E]" "[1..ntypes E]" t s "[]"] by simp
  then show ?thesis
    by (simp add: read_restart_def write_restart_eq read_settings_items restored_def Let_def)
qed


lemma fold_table_row:
  assumes "\<And>j t a b. sel (f j t) a b = (if a = i \<and> b = j \<and> P a b then v a b else sel t a b)"
  shows "sel (fold f js t) a b = (if a = i \<and> b \<in> set js \<and> P a b then v a b else sel t a b)"
  by (induction js arbitrary: t) (auto simp: assms)

lemma fold_table_rows:
  assumes "\<And>i t a b. sel (g i t) a b =
             (if a = i \<and> b \<in> set (J i) \<and> P a b then v a b else sel t a b)"
  shows "sel (fold g is t) a b =
           (if a \<in> set is \<and> b \<in> set (J a) \<and> P a b then v a b else sel t a b)"
  by (induction "is" arbitrary: t) (auto simp: assms)

lemma fold_frame:
  assumes "\<And>j t. sel (f j t) = sel t"
  shows "sel (fold f js t) = sel t"
  by (induction js arbitrary: t) (simp_all add: assms)

lemma restore_entry_tables:
  "setflag (restore_entry s i j t) a b =
     (if a = i \<and> b = j \<and> True then setflag s a b else setflag t a b)"
  "aterm (restore_entry s i j t) a b =
     (if a = i \<and> b = j \<and> setflag s a b \<noteq> 0 then aterm s a b else aterm t a b)"
  "bterm (restore_entry s i j t) a b =
     (if a = i \<and> b = j \<and> setflag s a b \<noteq> 0 then bterm s a b else bterm t a b)"
  "cterm (restore_entry s i j t) a b =
     (if a = i \<and> b = j \<and> setflag s a b \<noteq> 0 then cterm s a b else cterm t a b)"
  "cut (restore_entry s i j t) a b =
     (if a = i \<and> b = j \<and> setflag s a b \<noteq> 0 then cut s a b else cut t a b)"
  by (auto simp: restore_entry_def upd2_apply)

lemma restore_entry_frame:
  "cut_global (restore_entry s i j t) = cut_global t"
  "offset_flag (restore_entry s i j t) = offset_flag t"
  "mix_flag (restore_entry s i j t) = mix_flag t"
  "tail_flag (restore_entry s i j t) = tail_flag t"
  "cut_respa (restore_entry s i j t) = cut_respa t"
  by (simp_all add: restore_entry_def)

lemma restored_tables:
  "setflag (restored E fresh s s0) a b =
     (if 1 \<le> a \<and> a \<le> b \<and> b \<le> ntypes E then setflag s a b else setflag fresh a b)"
  "aterm (restored E fresh s s0) a b =
     (if 1 \<le> a \<and> a \<le> b \<and> b \<le> ntypes E \<and> setflag s a b \<noteq> 0
      then aterm s a b else aterm fresh a b)"
  "bterm (restored E fresh s s0) a b =
     (if 1 \<le> a \<and> a \<le> b \<and> b \<le> ntypes E \<and> setflag s a b \<noteq> 0
      then bterm s a b else bterm fresh a b)"
  "cterm (restored E fresh s s0) a b =
     (if 1 \<le> a \<and> a \<le> b \<and> b \<le> ntypes E \<and> setflag s a b \<noteq> 0
      then cterm s a b else cterm fresh a b)"
  "cut (restored E fresh s s0) a b =
     (if 1 \<le> a \<and> a \<le> b \<and> b \<le> ntypes E \<and> setflag s a b \<noteq> 0
      then cut s a b else cut fresh a b)"
proof -
  note row = fold_table_row [where f = "restore_entry s i" for i, OF restore_entry_tables(1)]
    fold_table_row [where f = "restore_entry s i" for i, OF restore_entry_tables(2)]
    fold_table_row [where f = "restore_entry s i" for i, OF restore_entry_tables(3)]
    fold_table_row [where f = "restore_entry s i" for i, OF restore_entry_tables(4)]
    fold_table_row [where f = "restore_entry s i" for i, OF restore_entry_tables(5)]
  note rows =
    fold_table_rows [where g = "\<lambda>i. fold (restore_entry s i) (J i)" and J = J for J, OF row(1)]
    fold_table_rows [where g = "\<lambda>i. fold (restore_entry s i) (J i)" and J = J for J, OF row(2)]
    fold_table_rows [where g = "\<lambda>i. fold (restore_entry s i) (J i)" and J = J for J, OF row(3)]
    fold_table_rows [where g = "\<lambda>i. fold (restore_entry s i) (J i)" and J = J for J, OF row(4)]
    fold_table_rows [where g = "\<lambda>i. fold (restore_entry s i) (J i)" and J = J for J, OF row(5)]
  show "setflag (restored E fresh s s0) a b =
     (if 1 \<le> a \<and> a \<le> b \<and> b \<le> ntypes E then setflag s a b else setflag fresh a b)"
    unfolding restored_def by (simp add: rows(1) setflag_allocate)
  show "aterm (restored E fresh s s0) a b =
     (if 1 \<le> a \<and> a \<le> b \<and> b \<le> ntypes E \<and> setflag s a b \<noteq> 0
      then aterm s a b else aterm fresh a b)"
    unfolding restored_def by (simp add: rows(2) allocate_fields)
  show "bterm (restored E fresh s s0) a b =
     (if 1 \<le> a \<and> a \<le> b \<and> b \<le> ntypes E \<and> setflag s a b \<noteq> 0
      then bterm s a b else bterm fresh a b)"
    unfolding restored_def by (simp add: rows(3) allocate_fields)
  show "cterm (restored E fresh s s0) a b =
     (if 1 \<le> a \<and> a \<le> b \<and> b \<le> ntypes E \<and> setflag s a b \<noteq> 0
      then cterm s a b else cterm fresh a b)"
    unfolding restored_def by (simp add: rows(4) allocate_fields)
  show "cut (restored E fresh s s0) a b =
     (if 1 \<le> a \<and> a \<le> b \<and> b \<le> ntypes E \<and> setflag s a b \<noteq> 0
      then cut s a b else cut fresh a b)"
    unfolding restored_def by (simp add: rows(5) allocate_fields)
qed

lemma restore_row_frame:
  "cut_global (fold (restore_entry s i) js t) = cut_global t \<and>
   offset_flag (fold (restore_entry s i) js t) = offset_flag t \<and>
   mix_flag (fold (restore_entry s i) js t) = mix_flag t \<and>
   tail_flag (fold (restore_entry s i) js t) = tail_flag t \<and>
   cut_respa (fold (restore_entry s i) js t) = cut_respa t"
  by (induction js arbitrary: t) (simp_all add: restore_entry_frame)

lemma restore_rows_frame:
  "cut_global (fold (\<lambda>i. fold (restore_entry s i) (J i)) is t) = cut_global t \<and>
   offset_flag (fold (\<lambda>i. fold (restore_entry s i) (J i)) is t) = offset_flag t \<and>
   mix_flag (fold (\<lambda>i. fold (restore_entry s i) (J i)) is t) = mix_flag t \<and>
   tail_flag (fold (\<lambda>i. fold (restore_entry s i) (J i)) is t) = tail_flag t \<and>
   cut_respa (fold (\<lambda>i. fold (restore_entry s i) (J i)) is t) = cut_respa t"
  by (induction "is" arbitrary: t) (simp_all add: restore_row_frame)

lemma restored_settings:
  "cut_global (restored E fresh s s0) = cut_global s"
  "offset_flag (restored E fresh s s0) = offset_flag s"
  "mix_flag (restored E fresh s s0) = mix_flag s"
  "tail_flag (restored E fresh s s0) = tail_flag s"
  "cut_respa (restored E fresh s s0) = cut_respa s0"
  unfolding restored_def
  by (simp_all add: restore_rows_frame allocate_fields)

lemma init_one_state_derived:
  assumes "both i j a b"
  shows "lj1 (init_one_state (init_one E i j s)) a b = 12 * coef_a s i j"
    "lj2 (init_one_state (init_one E i j s)) a b = 10 * coef_b s i j"
    "lj3 (init_one_state (init_one E i j s)) a b = 6 * coef_c s i j"
    "lj4 (init_one_state (init_one E i j s)) a b = coef_a s i j"
    "lj5 (init_one_state (init_one E i j s)) a b = coef_b s i j"
    "lj6 (init_one_state (init_one E i j s)) a b = coef_c s i j"
    "offset (init_one_state (init_one E i j s)) a b = 0"
  using assms by (simp_all add: init_one_state_eq tail_frame tables_fields)

lemma init_one_state_cut:
  "cut (init_one_state (init_one E i j s)) i j = cut_mixed E s i j"
  by (simp add: init_one_state_eq tail_frame tables_fields)

lemma restored_coefs:
  assumes "1 \<le> i" "i \<le> j" "j \<le> ntypes E"
  shows "coef_a (restored E fresh s s0) i j = coef_a s i j"
    "coef_b (restored E fresh s s0) i j = coef_b s i j"
    "coef_c (restored E fresh s s0) i j = coef_c s i j"
  using assms by (simp_all add: coef_a_def coef_b_def coef_c_def restored_tables)

lemma restored_cut_mixed:
  assumes "1 \<le> i" "i \<le> j" "j \<le> ntypes E"
    and "setflag s i j \<noteq> 0 \<or> (setflag s i i \<noteq> 0 \<and> setflag s j j \<noteq> 0)"
  shows "cut_mixed E (restored E fresh s s0) i j = cut_mixed E s i j"
  using assms by (auto simp: cut_mixed_def restored_tables)

text \<open>
  C5, as amended. Reading back what \<^verbatim>\<open>write_restart\<close> wrote for a table \<open>s\<close>, into
  freshly allocated memory, succeeds and consumes the whole file. The global settings are
  those of \<open>s\<close>. For every pair \<open>1 \<le> i \<le> j \<le> ntypes\<close> the flag \<open>setflag\<close> is that of \<open>s\<close>,
  and, if the pair is set, so are \<open>a\<close>, \<open>b\<close>, \<open>c\<close> and the cutoff; for a pair that is not
  set these four are not in the file and hold whatever the fresh memory held. Running
  \<^verbatim>\<open>init_one(i, j)\<close> on the restored table gives the derived constants that it gives
  on \<open>s\<close>, for \<open>(i, j)\<close> and \<open>(j, i)\<close>, and the same cutoff when the pair is set or both
  \<open>(i, i)\<close> and \<open>(j, j)\<close> are.
\<close>

theorem restart_round_trip:
  assumes "1 \<le> i" "i \<le> j" "j \<le> ntypes E"
  shows "\<exists>s'. read_restart E fresh (s0, write_restart E s []) = Inr (s', []) \<and>
           cut_global s' = cut_global s \<and> offset_flag s' = offset_flag s \<and>
           mix_flag s' = mix_flag s \<and> tail_flag s' = tail_flag s \<and>
           setflag s' i j = setflag s i j \<and>
           (setflag s i j \<noteq> 0 \<longrightarrow>
              aterm s' i j = aterm s i j \<and> bterm s' i j = bterm s i j \<and>
              cterm s' i j = cterm s i j \<and> cut s' i j = cut s i j) \<and>
           (setflag s i j = 0 \<longrightarrow>
              aterm s' i j = aterm fresh i j \<and> bterm s' i j = bterm fresh i j \<and>
              cterm s' i j = cterm fresh i j \<and> cut s' i j = cut fresh i j) \<and>
           (\<forall>a b. both i j a b \<longrightarrow>
              lj1 (init_one_state (init_one E i j s')) a b =
                lj1 (init_one_state (init_one E i j s)) a b \<and>
              lj2 (init_one_state (init_one E i j s')) a b =
                lj2 (init_one_state (init_one E i j s)) a b \<and>
              lj3 (init_one_state (init_one E i j s')) a b =
                lj3 (init_one_state (init_one E i j s)) a b \<and>
              lj4 (init_one_state (init_one E i j s')) a b =
                lj4 (init_one_state (init_one E i j s)) a b \<and>
              lj5 (init_one_state (init_one E i j s')) a b =
                lj5 (init_one_state (init_one E i j s)) a b \<and>
              lj6 (init_one_state (init_one E i j s')) a b =
                lj6 (init_one_state (init_one E i j s)) a b \<and>
              offset (init_one_state (init_one E i j s')) a b =
                offset (init_one_state (init_one E i j s)) a b) \<and>
           (setflag s i j \<noteq> 0 \<or> (setflag s i i \<noteq> 0 \<and> setflag s j j \<noteq> 0) \<longrightarrow>
              cut (init_one_state (init_one E i j s')) i j =
                cut (init_one_state (init_one E i j s)) i j)"
proof (intro exI conjI)
  show "read_restart E fresh (s0, write_restart E s []) = Inr (restored E fresh s s0, [])"
    by (rule read_restart_write_restart)
  show "cut_global (restored E fresh s s0) = cut_global s"
    "offset_flag (restored E fresh s s0) = offset_flag s"
    "mix_flag (restored E fresh s s0) = mix_flag s"
    "tail_flag (restored E fresh s s0) = tail_flag s"
    by (simp_all add: restored_settings)
  show "setflag (restored E fresh s s0) i j = setflag s i j"
    using assms by (simp add: restored_tables)
  show "setflag s i j \<noteq> 0 \<longrightarrow>
      aterm (restored E fresh s s0) i j = aterm s i j \<and>
      bterm (restored E fresh s s0) i j = bterm s i j \<and>
      cterm (restored E fresh s s0) i j = cterm s i j \<and>
      cut (restored E fresh s s0) i j = cut s i j"
    using assms by (simp add: restored_tables)
  show "setflag s i j = 0 \<longrightarrow>
      aterm (restored E fresh s s0) i j = aterm fresh i j \<and>
      bterm (restored E fresh s s0) i j = bterm fresh i j \<and>
      cterm (restored E fresh s s0) i j = cterm fresh i j \<and>
      cut (restored E fresh s s0) i j = cut fresh i j"
    by (simp add: restored_tables)
  show "\<forall>a b. both i j a b \<longrightarrow>
      lj1 (init_one_state (init_one E i j (restored E fresh s s0))) a b =
        lj1 (init_one_state (init_one E i j s)) a b \<and>
      lj2 (init_one_state (init_one E i j (restored E fresh s s0))) a b =
        lj2 (init_one_state (init_one E i j s)) a b \<and>
      lj3 (init_one_state (init_one E i j (restored E fresh s s0))) a b =
        lj3 (init_one_state (init_one E i j s)) a b \<and>
      lj4 (init_one_state (init_one E i j (restored E fresh s s0))) a b =
        lj4 (init_one_state (init_one E i j s)) a b \<and>
      lj5 (init_one_state (init_one E i j (restored E fresh s s0))) a b =
        lj5 (init_one_state (init_one E i j s)) a b \<and>
      lj6 (init_one_state (init_one E i j (restored E fresh s s0))) a b =
        lj6 (init_one_state (init_one E i j s)) a b \<and>
      offset (init_one_state (init_one E i j (restored E fresh s s0))) a b =
        offset (init_one_state (init_one E i j s)) a b"
    by (simp add: init_one_state_derived restored_coefs [OF assms])
  show "setflag s i j \<noteq> 0 \<or> (setflag s i i \<noteq> 0 \<and> setflag s j j \<noteq> 0) \<longrightarrow>
      cut (init_one_state (init_one E i j (restored E fresh s s0))) i j =
        cut (init_one_state (init_one E i j s)) i j"
    by (simp add: init_one_state_cut restored_cut_mixed [OF assms])
qed

lemma E0_ntypes: "ntypes E0 = 2"
  by (simp add: E0_def)

theorem restart_round_trip_witness:
  "(1::int) \<le> 1 \<and> (1::int) \<le> 2 \<and> 2 \<le> ntypes E0 \<and>
   snd (projr (read_restart E0 zero_state (zero_state, write_restart E0 demo_state []))) = [] \<and>
   setflag (fst (projr (read_restart E0 zero_state
                          (zero_state, write_restart E0 demo_state [])))) 1 2 = 0 \<and>
   tail_flag (fst (projr (read_restart E0 zero_state
                          (zero_state, write_restart E0 demo_state [])))) = 0"
  using restart_round_trip [of 1 2 E0 zero_state zero_state demo_state]
  by (auto simp: E0_ntypes demo_fields upd2_apply)

text \<open>
  C5 as stated fails for a pair that is not set. The demonstration table after
  \<^verbatim>\<open>init_one(1, 2)\<close> has the cutoff 11 for the pair \<open>(1, 2)\<close>; written and read back
  into zeroed memory, the pair has the cutoff 0 until it is finalized again.
\<close>

theorem restart_unset_pair_not_restored:
  "setflag final12 1 2 = 0 \<and> cut final12 1 2 = 11 \<and>
   cut (fst (projr (read_restart E0 zero_state (zero_state, write_restart E0 final12 []))))
     1 2 = 0"
  by (simp add: read_restart_write_restart restored_tables final12_def init_one_eq
      respa_check_def demo_fields tail_frame tables_frame tables_fields cut_mixed_def
      upd2_apply E0_def zero_state_def)

end
